theory Spec2Isabelle
  imports Complex_Main "HOL-Library.Sublist"
begin

section \<open>Values of the search response\<close>

text \<open>
  The search client returns \<^verbatim>\<open>r.json()\<close>: a Python value built from \<^verbatim>\<open>None\<close>,
  booleans, numbers, strings, lists and dicts. A number is modelled by its exact value
  (Python compares an int and a float by value, so \<^verbatim>\<open>1 == 1.0\<close>); a dict by its items
  in insertion order, with distinct keys. A string stands as the bytes of its UTF-8
  encoding, a list of \<^typ>\<open>char\<close>: a character is one byte that is not a continuation
  byte, followed by its continuation bytes (\<^verbatim>\<open>0x80\<close> to \<^verbatim>\<open>0xBF\<close>).
\<close>

datatype json =
  JNull
  | JBool bool
  | JNum rat
  | JStr string
  | JList "json list"
  | JObj "(string \<times> json) list"

definition is_continuation :: "char \<Rightarrow> bool" where
  "is_continuation c = (let n = (of_char c :: nat) in 128 \<le> n \<and> n < 192)"

text \<open>The characters of a string, each with its bytes.\<close>

function code_points :: "string \<Rightarrow> string list" where
  "code_points [] = []"
| "code_points (c # cs) =
     (c # takeWhile is_continuation cs) # code_points (dropWhile is_continuation cs)"
  by pat_completeness auto

termination
  by (relation "measure length") (simp_all add: length_dropWhile_le less_Suc_eq_le)

text \<open>
  The exceptions the script can meet. \<open>Raised\<close> is an exception raised by an external
  collaborator (the HTTP client, the mail relay), with its message text.
\<close>

datatype py_error =
  AttributeError
  | TypeError
  | KeyError
  | IndexError
  | ValueError
  | Raised string

text \<open>Truth value of a Python object, as \<^verbatim>\<open>if x:\<close> and \<^verbatim>\<open>x or y\<close> test it.\<close>

fun truthy :: "json \<Rightarrow> bool" where
  "truthy JNull = False"
| "truthy (JBool b) = b"
| "truthy (JNum n) = (n \<noteq> 0)"
| "truthy (JStr s) = (s \<noteq> [])"
| "truthy (JList xs) = (xs \<noteq> [])"
| "truthy (JObj kvs) = (kvs \<noteq> [])"

definition py_or :: "json \<Rightarrow> json \<Rightarrow> json" where
  "py_or a b = (if truthy a then a else b)"

text \<open>\<^verbatim>\<open>d.get(k, default)\<close> on the items of a dict.\<close>

definition dget :: "(string \<times> json) list \<Rightarrow> string \<Rightarrow> json \<Rightarrow> json" where
  "dget kvs k d = (case map_of kvs k of None \<Rightarrow> d | Some v \<Rightarrow> v)"

text \<open>
  \<^verbatim>\<open>x.get(k, default)\<close> and \<^verbatim>\<open>x.get(k)\<close> on any value: only a dict has the
  method.
\<close>

fun py_get_default :: "json \<Rightarrow> string \<Rightarrow> json \<Rightarrow> py_error + json" where
  "py_get_default (JObj kvs) k d = Inr (dget kvs k d)"
| "py_get_default _ k d = Inl AttributeError"

definition py_get :: "json \<Rightarrow> string \<Rightarrow> py_error + json" where
  "py_get x k = py_get_default x k JNull"

text \<open>
  \<^verbatim>\<open>x[0]\<close>: the first element of a list, the first character of a string; a dict
  parsed from JSON has string keys only, so the key \<^verbatim>\<open>0\<close> is missing; the other values
  are not subscriptable.
\<close>

fun py_index0 :: "json \<Rightarrow> py_error + json" where
  "py_index0 (JList (x # xs)) = Inr x"
| "py_index0 (JList []) = Inl IndexError"
| "py_index0 (JStr (c # cs)) = Inr (JStr (c # takeWhile is_continuation cs))"
| "py_index0 (JStr []) = Inl IndexError"
| "py_index0 (JObj kvs) = Inl KeyError"
| "py_index0 _ = Inl TypeError"

text \<open>
  \<^verbatim>\<open>for item in x\<close>: a list yields its elements, a dict its keys, a string its
  characters; the other values are not iterable.
\<close>

fun py_iter :: "json \<Rightarrow> py_error + json list" where
  "py_iter (JList xs) = Inr xs"
| "py_iter (JObj kvs) = Inr (map (\<lambda>kv. JStr (fst kv)) kvs)"
| "py_iter (JStr s) = Inr (map JStr (code_points s))"
| "py_iter _ = Inl TypeError"

section \<open>Job records and the result normalizer\<close>

text \<open>
  The dict built for each item in \<^verbatim>\<open>main\<close> has eight fixed keys; \<^verbatim>\<open>outreach\<close> is
  added later by the outreach loop, so it is absent (\<open>None\<close>) until then.
\<close>

record job =
  title :: json
  company_name :: json
  location :: json
  via :: json
  extensions :: json
  description :: json
  apply_link :: json
  job_id :: json
  outreach :: "string option"

text \<open>
  Lines 95 to 100: the apply link. A truthy \<^verbatim>\<open>apply_options\<close> decides alone; the
  fallback reads the first related link and then \<^verbatim>\<open>share_link\<close>.
\<close>

definition pick_apply_link :: "(string \<times> json) list \<Rightarrow> py_error + json" where
  "pick_apply_link kvs =
     (let apply_options = py_or (dget kvs ''apply_options'' JNull) (JList [])
      in if truthy apply_options then
           (case py_index0 apply_options of
              Inl e \<Rightarrow> Inl e
            | Inr first \<Rightarrow> py_get first ''link'')
         else
           (case py_index0 (py_or (dget kvs ''related_links'' JNull) (JList [JObj []])) of
              Inl e \<Rightarrow> Inl e
            | Inr first \<Rightarrow>
                (case py_get first ''link'' of
                   Inl e \<Rightarrow> Inl e
                 | Inr l \<Rightarrow> Inr (py_or l (dget kvs ''share_link'' JNull)))))"

text \<open>
  Lines 84 to 100: one raw item becomes a job record, or the first exception met. Every
  \<^verbatim>\<open>item.get\<close> needs \<^verbatim>\<open>item\<close> to be a dict, and \<^verbatim>\<open>detected_extensions\<close>, when
  present, must be a dict for \<^verbatim>\<open>.get("via")\<close>.
\<close>

fun normalize :: "string \<Rightarrow> json \<Rightarrow> py_error + job" where
  "normalize company (JObj kvs) =
     (case py_get (dget kvs ''detected_extensions'' (JObj [])) ''via'' of
        Inl e \<Rightarrow> Inl e
      | Inr v \<Rightarrow>
          (case pick_apply_link kvs of
             Inl e \<Rightarrow> Inl e
           | Inr l \<Rightarrow>
               Inr \<lparr> title = dget kvs ''title'' JNull,
                     company_name = dget kvs ''company_name'' (JStr company),
                     location = dget kvs ''location'' JNull,
                     via = v,
                     extensions = dget kvs ''detected_extensions'' (JObj []),
                     description = dget kvs ''description'' (JStr ''''),
                     apply_link = l,
                     job_id = dget kvs ''job_id'' JNull,
                     outreach = None \<rparr>))"
| "normalize company _ = Inl AttributeError"

section \<open>The outside world and the trace of a run\<close>

text \<open>
  The script talks to a search API, a language-model API, the clock and a mail relay.
  The model takes their answers from a \<open>world\<close> and records what the script does as a
  list of events, in order.
  \<^item> \<open>search_reply w k key q\<close> is the outcome of the \<open>k\<close>-th call of
    \<^verbatim>\<open>google_jobs_search(key, q)\<close> (counted from 0): the parsed body, or the exception
    raised by the request, the status check or the JSON decoder.
  \<^item> \<open>outreach_reply w k key j\<close> is the outcome of the \<open>k\<close>-th call of
    \<^verbatim>\<open>gen_outreach(key, j)\<close>: the text returned (a generated message, or the note that
    the client library is not installed), or \<open>Inl\<close> the text \<^verbatim>\<open>str(e)\<close> of the exception
    raised, whether by the client library, by the network or by the reading of the
    record's fields.
  \<^item> \<open>now_reply w k\<close> is what the \<open>k\<close>-th call of \<^verbatim>\<open>ist_now_str()\<close> returns.
  \<^item> \<open>smtp_reply w\<close> is the exception \<^verbatim>\<open>send_email\<close> raises, if any.

  The exceptions are those derived from \<^verbatim>\<open>Exception\<close>, which the two \<^verbatim>\<open>except\<close>
  clauses of \<^verbatim>\<open>main\<close> catch; an interrupt of the process is outside the model.
\<close>

record world =
  search_reply :: "nat \<Rightarrow> string option \<Rightarrow> string \<Rightarrow> py_error + json"
  outreach_reply :: "nat \<Rightarrow> string option \<Rightarrow> job \<Rightarrow> string + string"
  now_reply :: "nat \<Rightarrow> string"
  smtp_reply :: "string option \<Rightarrow> string option \<Rightarrow> string option \<Rightarrow> string \<Rightarrow> string
                   \<Rightarrow> py_error option"

text \<open>
  \<open>Warn company e\<close> is the line \<^verbatim>\<open>[warn] {company} query failed: {e}\<close> on standard
  error; \<open>Stderr\<close> and \<open>Stdout\<close> carry the text printed.
\<close>

datatype event =
  Stderr string
  | Stdout string
  | Warn string py_error
  | Search string
  | Sleep
  | GenOutreach job
  | SendMail "string option" "string option" "string option" string string

fun is_network_call :: "event \<Rightarrow> bool" where
  "is_network_call (Search q) = True"
| "is_network_call (GenOutreach j) = True"
| "is_network_call (SendMail u p t s b) = True"
| "is_network_call _ = False"

fun is_search :: "event \<Rightarrow> bool" where
  "is_search (Search q) = True"
| "is_search _ = False"

text \<open>How a run ends: \<^verbatim>\<open>sys.exit(n)\<close>, an exception nobody catches, or the end of \<^verbatim>\<open>main\<close>.\<close>

datatype outcome = Exit int | Uncaught py_error | Finished

section \<open>Configuration\<close>

text \<open>
  A string stands as the bytes of its UTF-8 encoding. \<open>space_codes\<close> lists the
  encodings of the characters \<^verbatim>\<open>str.strip()\<close> removes, those for which \<^verbatim>\<open>str.isspace()\<close>
  holds: tab to carriage return, the four separators \<^verbatim>\<open>0x1C\<close> to \<^verbatim>\<open>0x1F\<close>, the space,
  \<^verbatim>\<open>U+0085\<close>, \<^verbatim>\<open>U+00A0\<close>, \<^verbatim>\<open>U+1680\<close>, \<^verbatim>\<open>U+2000\<close> to \<^verbatim>\<open>U+200A\<close>, \<^verbatim>\<open>U+2028\<close>,
  \<^verbatim>\<open>U+2029\<close>, \<^verbatim>\<open>U+202F\<close>, \<^verbatim>\<open>U+205F\<close> and \<^verbatim>\<open>U+3000\<close>.
\<close>

definition space_codes :: "string list" where
  "space_codes =
     [[CHR 0x09], [CHR 0x0A], [CHR 0x0B], [CHR 0x0C], [CHR 0x0D], [CHR 0x1C], [CHR 0x1D],
      [CHR 0x1E], [CHR 0x1F], [CHR 0x20], [CHR 0xC2, CHR 0x85], [CHR 0xC2, CHR 0xA0],
      [CHR 0xE1, CHR 0x9A, CHR 0x80], [CHR 0xE2, CHR 0x80, CHR 0x80],
      [CHR 0xE2, CHR 0x80, CHR 0x81], [CHR 0xE2, CHR 0x80, CHR 0x82],
      [CHR 0xE2, CHR 0x80, CHR 0x83], [CHR 0xE2, CHR 0x80, CHR 0x84],
      [CHR 0xE2, CHR 0x80, CHR 0x85], [CHR 0xE2, CHR 0x80, CHR 0x86],
      [CHR 0xE2, CHR 0x80, CHR 0x87], [CHR 0xE2, CHR 0x80, CHR 0x88],
      [CHR 0xE2, CHR 0x80, CHR 0x89], [CHR 0xE2, CHR 0x80, CHR 0x8A],
      [CHR 0xE2, CHR 0x80, CHR 0xA8], [CHR 0xE2, CHR 0x80, CHR 0xA9],
      [CHR 0xE2, CHR 0x80, CHR 0xAF], [CHR 0xE2, CHR 0x81, CHR 0x9F],
      [CHR 0xE3, CHR 0x80, CHR 0x80]]"

text \<open>
  \<open>strip_left codes s\<close> removes from the front of \<open>s\<close> every leading occurrence of one
  of \<open>codes\<close>. \<^verbatim>\<open>s.strip()\<close> does so at both ends; the end of \<open>s\<close> is the front of
  its reverse.
\<close>

function strip_left :: "string list \<Rightarrow> string \<Rightarrow> string" where
  "strip_left codes s =
     (case find (\<lambda>c. c \<noteq> [] \<and> prefix c s) codes of
        None \<Rightarrow> s
      | Some c \<Rightarrow> strip_left codes (drop (length c) s))"
  by pat_completeness auto

termination
proof (relation "measure (\<lambda>(codes, s). length s)")
  show "wf (measure (\<lambda>(codes, s). length s))" by simp
next
  fix codes :: "string list" and s c :: string
  assume "find (\<lambda>c. c \<noteq> [] \<and> prefix c s) codes = Some c"
  then have c: "c \<noteq> []" and "prefix c s"
    by (auto simp: find_Some_iff)
  then have "s \<noteq> []" by auto
  with c show "((codes, drop (length c) s), (codes, s)) \<in> measure (\<lambda>(codes, s). length s)"
    by simp
qed

definition py_strip :: "string \<Rightarrow> string" where
  "py_strip s = rev (strip_left (map rev space_codes) (rev (strip_left space_codes s)))"

text \<open>\<^verbatim>\<open>s.split(",")\<close>: the pieces between commas, at least one.\<close>

fun split_comma :: "string \<Rightarrow> string list" where
  "split_comma [] = [[]]"
| "split_comma (c # cs) =
     (if c = CHR '','' then [] # split_comma cs
      else (case split_comma cs of
              [] \<Rightarrow> [[c]]
            | x # xs \<Rightarrow> (c # x) # xs))"

text \<open>
  Lines 9 to 14, \<^verbatim>\<open>env(name, default, required)\<close>, on the process environment
  \<open>environ\<close>. A required variable that is unset or blank prints one line on standard
  error and exits with status 1.
\<close>

type_synonym environ = "string \<Rightarrow> string option"

type_synonym stop = "outcome \<times> event list"

definition getenv :: "environ \<Rightarrow> string \<Rightarrow> string option \<Rightarrow> string option" where
  "getenv environ name dflt = (case environ name of None \<Rightarrow> dflt | Some v \<Rightarrow> Some v)"

definition blank :: "string option \<Rightarrow> bool" where
  "blank v = (case v of None \<Rightarrow> True | Some s \<Rightarrow> py_strip s = [])"

definition env :: "environ \<Rightarrow> string \<Rightarrow> string option \<Rightarrow> bool \<Rightarrow> stop + string option" where
  "env environ name dflt required =
     (let v = getenv environ name dflt
      in if required \<and> blank v
         then Inl (Exit 1, [Stderr (''Missing required env var: '' @ name)])
         else Inr v)"

text \<open>
  \<^verbatim>\<open>int(v)\<close> and \<^verbatim>\<open>v.split(",")\<close> on what \<^verbatim>\<open>env\<close> returned, and \<^verbatim>\<open>{v}\<close> inside an
  f-string. On \<^verbatim>\<open>None\<close> the first two raise; nothing in \<^verbatim>\<open>main\<close> catches them.

  The built-in \<^verbatim>\<open>int\<close> is not part of the script: which strings it reads (the digits of
  every script, the underscores, the bound on the number of digits) is the interpreter's
  matter. The model takes it as a parameter, \<open>int_of_str\<close>: the number read from a
  string, or \<open>None\<close> where \<^verbatim>\<open>int\<close> raises \<^verbatim>\<open>ValueError\<close>.
\<close>

definition int_of_env :: "(string \<Rightarrow> int option) \<Rightarrow> string option \<Rightarrow> stop + int" where
  "int_of_env int_of_str v =
     (case v of
        None \<Rightarrow> Inl (Uncaught TypeError, [])
      | Some s \<Rightarrow> (case int_of_str s of
                    None \<Rightarrow> Inl (Uncaught ValueError, [])
                  | Some n \<Rightarrow> Inr n))"

definition companies_of_env :: "string option \<Rightarrow> stop + string list" where
  "companies_of_env v =
     (case v of
        None \<Rightarrow> Inl (Uncaught AttributeError, [])
      | Some s \<Rightarrow> Inr (filter (\<lambda>c. c \<noteq> []) (map py_strip (split_comma s))))"

definition py_str :: "string option \<Rightarrow> string" where
  "py_str v = (case v of None \<Rightarrow> ''None'' | Some s \<Rightarrow> s)"

record config =
  serpapi_key :: "string option"
  openai_api_key :: "string option"
  gmail_user :: "string option"
  gmail_app_password :: "string option"
  to_email :: "string option"
  max_results :: int
  companies :: "string list"
  role_query :: "string option"
  sites_hint :: "string option"
  days :: int

definition default_companies :: string where
  "default_companies =
     ''Google, Meta, Amazon, Apple, Netflix, Microsoft, OpenAI, Stripe, Databricks, DoorDash, Airbnb, Uber''"

definition default_role_query :: string where
  "default_role_query = ''entry level OR new grad full stack OR software engineer''"

definition default_sites_hint :: string where
  "default_sites_hint =
     ''site:boards.greenhouse.io OR site:jobs.lever.co OR site:careers.microsoft.com OR site:amazon.jobs OR site:meta.com/careers OR site:apple.com/careers OR site:google.com/about/careers OR site:netflixjobs.com OR site:about.google''"

definition bind :: "stop + 'a \<Rightarrow> ('a \<Rightarrow> stop + 'b) \<Rightarrow> stop + 'b" where
  "bind m f = (case m of Inl s \<Rightarrow> Inl s | Inr x \<Rightarrow> f x)"

text \<open>Lines 67 to 76 of \<^verbatim>\<open>main\<close>, in the order the script reads its variables.\<close>

definition load_config :: "(string \<Rightarrow> int option) \<Rightarrow> environ \<Rightarrow> stop + config" where
  "load_config int_of_str environ =
     bind (env environ ''SERPAPI_KEY'' None True) (\<lambda>SERPAPI_KEY.
     bind (env environ ''OPENAI_API_KEY'' None False) (\<lambda>OPENAI_API_KEY.
     bind (env environ ''GMAIL_USER'' None True) (\<lambda>GMAIL_USER.
     bind (env environ ''GMAIL_APP_PASSWORD'' None True) (\<lambda>GMAIL_APP_PASSWORD.
     bind (env environ ''TO_EMAIL'' None True) (\<lambda>TO_EMAIL.
     bind (bind (env environ ''MAX_RESULTS'' (Some ''20'') False) (int_of_env int_of_str)) (\<lambda>MAX_RESULTS.
     bind (bind (env environ ''COMPANIES'' (Some default_companies) False) companies_of_env) (\<lambda>COMPANIES.
     bind (env environ ''ROLE_QUERY'' (Some default_role_query) False) (\<lambda>ROLE_QUERY.
     bind (env environ ''SITES_HINT'' (Some default_sites_hint) False) (\<lambda>SITES_HINT.
     bind (bind (env environ ''DAYS'' (Some ''2'') False) (int_of_env int_of_str)) (\<lambda>DAYS.
     Inr \<lparr> serpapi_key = SERPAPI_KEY, openai_api_key = OPENAI_API_KEY,
           gmail_user = GMAIL_USER, gmail_app_password = GMAIL_APP_PASSWORD,
           to_email = TO_EMAIL, max_results = MAX_RESULTS, companies = COMPANIES,
           role_query = ROLE_QUERY, sites_hint = SITES_HINT, days = DAYS \<rparr>))))))))))"

text \<open>The variables \<^verbatim>\<open>main\<close> reads with \<^verbatim>\<open>required=True\<close>, in the order it reads them.\<close>

definition required_vars :: "string list" where
  "required_vars = [''SERPAPI_KEY'', ''GMAIL_USER'', ''GMAIL_APP_PASSWORD'', ''TO_EMAIL'']"

section \<open>The aggregator\<close>

text \<open>Line 80: the query of one company.\<close>

definition build_query :: "config \<Rightarrow> string \<Rightarrow> string" where
  "build_query cfg company =
     py_str (role_query cfg) @ '' '' @ [CHR 0x22] @ company @ [CHR 0x22] @ '' (''
       @ py_str (sites_hint cfg) @ '')''"

text \<open>
  Lines 83 to 101, the loop over the items of one response. Each record is appended as
  soon as it is built, so an exception at one item leaves the records of the items before
  it in the accumulator.
\<close>

fun normalize_items :: "string \<Rightarrow> json list \<Rightarrow> job list \<Rightarrow> job list \<times> py_error option" where
  "normalize_items company [] jobs = (jobs, None)"
| "normalize_items company (item # items) jobs =
     (case normalize company item of
        Inl e \<Rightarrow> (jobs, Some e)
      | Inr j \<Rightarrow> normalize_items company items (jobs @ [j]))"

text \<open>
  Lines 82 and 83, what the loop over the items iterates: the search call, the read of
  \<^verbatim>\<open>jobs_results\<close> with its default \<^verbatim>\<open>[]\<close>, and the iteration of the value found.
\<close>

definition response_items :: "world \<Rightarrow> config \<Rightarrow> nat \<Rightarrow> string \<Rightarrow> py_error + json list" where
  "response_items w cfg k company =
     (case search_reply w k (serpapi_key cfg) (build_query cfg company) of
        Inl e \<Rightarrow> Inl e
      | Inr data \<Rightarrow>
          (case py_get_default data ''jobs_results'' (JList []) of
             Inl e \<Rightarrow> Inl e
           | Inr results \<Rightarrow> py_iter results))"

text \<open>
  Lines 81 to 103, the body of \<^verbatim>\<open>try\<close> for one company. The result is the
  accumulator and the exception caught, if any.
\<close>

definition try_company :: "world \<Rightarrow> config \<Rightarrow> nat \<Rightarrow> string \<Rightarrow> job list \<Rightarrow> job list \<times> py_error option" where
  "try_company w cfg k company jobs =
     (case response_items w cfg k company of
        Inl e \<Rightarrow> (jobs, Some e)
      | Inr items \<Rightarrow> normalize_items company items jobs)"

text \<open>Lines 80 to 104: one iteration of the loop over the companies, with its events.\<close>

definition company_step :: "world \<Rightarrow> config \<Rightarrow> nat \<Rightarrow> string \<Rightarrow> job list \<Rightarrow> job list \<times> event list" where
  "company_step w cfg k company jobs =
     (case try_company w cfg k company jobs of
        (jobs', None) \<Rightarrow> (jobs', [Search (build_query cfg company), Sleep])
      | (jobs', Some e) \<Rightarrow> (jobs', [Search (build_query cfg company), Warn company e, Sleep]))"

text \<open>
  Lines 78 to 106: the loop over the companies. \<open>k\<close> counts the search calls made so
  far. The cap is tested at the end of an iteration only.
\<close>

fun aggregate :: "world \<Rightarrow> config \<Rightarrow> nat \<Rightarrow> string list \<Rightarrow> job list \<Rightarrow> job list \<times> event list" where
  "aggregate w cfg k [] jobs = (jobs, [])"
| "aggregate w cfg k (company # rest) jobs =
     (case company_step w cfg k company jobs of
        (jobs', evs) \<Rightarrow>
          if max_results cfg \<le> int (length jobs') then (jobs', evs)
          else (case aggregate w cfg (Suc k) rest jobs' of
                  (jobs'', evs') \<Rightarrow> (jobs'', evs @ evs')))"

section \<open>The deduplicator\<close>

text \<open>
  The key \<^verbatim>\<open>(title, company_name)\<close> goes into a Python set, which hashes it and
  compares by \<^verbatim>\<open>==\<close>. Lists and dicts are not hashable: \<^verbatim>\<open>key in seen\<close> raises
  \<^verbatim>\<open>TypeError\<close>, and nothing catches it. Among hashable values \<^verbatim>\<open>True == 1\<close> and
  \<^verbatim>\<open>False == 0\<close>, and values of different kinds are different otherwise. \<open>hash_key\<close>
  maps a value to what the set compares.
\<close>

datatype hkey = HNone | HNum rat | HStr string

fun hash_key :: "json \<Rightarrow> hkey option" where
  "hash_key JNull = Some HNone"
| "hash_key (JBool b) = Some (HNum (if b then 1 else 0))"
| "hash_key (JNum n) = Some (HNum n)"
| "hash_key (JStr s) = Some (HStr s)"
| "hash_key (JList xs) = None"
| "hash_key (JObj kvs) = None"

definition job_key :: "job \<Rightarrow> (hkey \<times> hkey) option" where
  "job_key j =
     (case hash_key (title j) of
        None \<Rightarrow> None
      | Some t \<Rightarrow> (case hash_key (company_name j) of
                    None \<Rightarrow> None
                  | Some c \<Rightarrow> Some (t, c)))"

text \<open>Lines 109 to 116, with \<^verbatim>\<open>seen\<close> and \<^verbatim>\<open>deduped\<close> as the loop's state.\<close>

fun dedup_loop :: "job list \<Rightarrow> (hkey \<times> hkey) set \<Rightarrow> job list \<Rightarrow> py_error + job list" where
  "dedup_loop [] seen deduped = Inr deduped"
| "dedup_loop (j # js) seen deduped =
     (case job_key j of
        None \<Rightarrow> Inl TypeError
      | Some key \<Rightarrow>
          if key \<in> seen then dedup_loop js seen deduped
          else dedup_loop js (insert key seen) (deduped @ [j]))"

definition dedup :: "job list \<Rightarrow> py_error + job list" where
  "dedup jobs = dedup_loop jobs {} []"

text \<open>
  \<^verbatim>\<open>xs[:n]\<close>: the first \<open>n\<close> elements, and for a negative \<open>n\<close> all but the last
  \<open>- n\<close>.
\<close>

definition py_slice_to :: "'a list \<Rightarrow> int \<Rightarrow> 'a list" where
  "py_slice_to xs n =
     (if 0 \<le> n then take (nat n) xs else take (nat (int (length xs) + n)) xs)"

text \<open>Lines 108 to 117.\<close>

definition dedup_truncate :: "int \<Rightarrow> job list \<Rightarrow> py_error + job list" where
  "dedup_truncate cap jobs =
     (case dedup jobs of
        Inl e \<Rightarrow> Inl e
      | Inr deduped \<Rightarrow> Inr (py_slice_to deduped cap))"

section \<open>The outreach enricher\<close>

text \<open>\<^verbatim>\<open>if OPENAI_API_KEY:\<close> holds for a string that is set and not empty.\<close>

definition key_set :: "string option \<Rightarrow> bool" where
  "key_set key = (case key of None \<Rightarrow> False | Some s \<Rightarrow> s \<noteq> [])"

definition no_key_text :: string where
  "no_key_text = ''(Set OPENAI_API_KEY to auto-generate outreach messaging.)''"

definition error_text :: "string \<Rightarrow> string" where
  "error_text e = ''(Generate later) Error using OpenAI API: '' @ e"

text \<open>Lines 120 to 127. \<open>k\<close> counts the calls of \<^verbatim>\<open>gen_outreach\<close> made so far.\<close>

fun outreach_loop :: "world \<Rightarrow> string option \<Rightarrow> nat \<Rightarrow> job list \<Rightarrow> job list \<times> event list" where
  "outreach_loop w key k [] = ([], [])"
| "outreach_loop w key k (j # js) =
     (if key_set key then
        (case outreach_loop w key (Suc k) js of
           (js', evs) \<Rightarrow>
             (j\<lparr>outreach := Some (case outreach_reply w k key j of
                                    Inl e \<Rightarrow> error_text e
                                  | Inr text \<Rightarrow> text)\<rparr> # js',
              GenOutreach j # evs))
      else
        (case outreach_loop w key k js of
           (js', evs) \<Rightarrow> (j\<lparr>outreach := Some no_key_text\<rparr> # js', evs)))"

section \<open>The digest\<close>

text \<open>
  \<^verbatim>\<open>html.escape\<close> with its default \<^verbatim>\<open>quote=True\<close>, and \<^verbatim>\<open>s.replace("\n", r)\<close>. Both
  replace ASCII characters only, so they act on the bytes of a string as on its
  characters.
\<close>

definition escape_char :: "char \<Rightarrow> string" where
  \<open>escape_char c =
     (if c = CHR ''&'' then ''&amp;''
      else if c = CHR ''<'' then ''&lt;''
      else if c = CHR ''>'' then ''&gt;''
      else if c = CHR 0x22 then ''&quot;''
      else if c = CHR 0x27 then ''&#x27;''
      else [c])\<close>

definition html_escape :: "string \<Rightarrow> string" where
  "html_escape s = concat (map escape_char s)"

definition replace_newline :: "string \<Rightarrow> string \<Rightarrow> string" where
  "replace_newline r s = concat (map (\<lambda>c. if c = CHR ''\<newline>'' then r else [c]) s)"

text \<open>\<^verbatim>\<open>s[:n]\<close> on a string: its first \<open>n\<close> characters.\<close>

definition py_prefix :: "nat \<Rightarrow> string \<Rightarrow> string" where
  "py_prefix n s = concat (take n (code_points s))"

text \<open>\<^verbatim>\<open>str(n)\<close> for a length or an index.\<close>

fun str_nat :: "nat \<Rightarrow> string" where
  "str_nat n =
     (if n < 10 then [''0123456789'' ! n]
      else str_nat (n div 10) @ [''0123456789'' ! (n mod 10)])"

text \<open>
  \<^verbatim>\<open>v or d\<close> as a string: what \<^verbatim>\<open>html.escape\<close> and \<^verbatim>\<open>.strip()\<close> need. A truthy value
  that is not a string has neither \<^verbatim>\<open>replace\<close> nor \<^verbatim>\<open>strip\<close>.
\<close>

definition str_or :: "json \<Rightarrow> string \<Rightarrow> py_error + string" where
  "str_or v d =
     (if truthy v then (case v of JStr s \<Rightarrow> Inr s | _ \<Rightarrow> Inl AttributeError) else Inr d)"

definition row_html :: "nat \<Rightarrow> string \<Rightarrow> string \<Rightarrow> string \<Rightarrow> string \<Rightarrow> string \<Rightarrow> string \<Rightarrow> string" where
  \<open>row_html idx ttl company loc desc link msg =
     ''\<newline>''
     @ ''        <tr>\<newline>''
     @ ''          <td style="padding:8px; border-bottom:1px solid #eee; vertical-align:top;">'' @ str_nat idx @ ''</td>\<newline>''
     @ ''          <td style="padding:8px; border-bottom:1px solid #eee; vertical-align:top;">\<newline>''
     @ ''            <div style="font-weight:600">'' @ ttl @ ''</div>\<newline>''
     @ ''            <div style="color:#555">'' @ company @ '' '' @ [CHR 0xE2, CHR 0x80, CHR 0x94] @ '' '' @ loc @ ''</div>\<newline>''
     @ ''            <div style="margin-top:6px; font-size:13px; color:#444">'' @ desc @ ''</div>\<newline>''
     @ ''            <div style="margin-top:6px"><a href="'' @ link @ ''">Apply Link</a></div>\<newline>''
     @ ''            <div style="margin-top:10px; font-size:13px;">\<newline>''
     @ ''              <div style="font-weight:600; margin-bottom:4px;">DM draft:</div>\<newline>''
     @ ''              <div>'' @ msg @ ''</div>\<newline>''
     @ ''            </div>\<newline>''
     @ ''          </td>\<newline>''
     @ ''        </tr>\<newline>''
     @ ''        ''\<close>

text \<open>Lines 132 to 152: one row, or the exception of the first field that is not text.\<close>

definition render_row :: "nat \<Rightarrow> job \<Rightarrow> py_error + string" where
  "render_row idx j =
     (case str_or (title j) [] of Inl e \<Rightarrow> Inl e | Inr t \<Rightarrow>
     (case str_or (company_name j) [] of Inl e \<Rightarrow> Inl e | Inr c \<Rightarrow>
     (case str_or (location j) [] of Inl e \<Rightarrow> Inl e | Inr l \<Rightarrow>
     (case str_or (apply_link j) ''#'' of Inl e \<Rightarrow> Inl e | Inr a \<Rightarrow>
     (case str_or (description j) [] of Inl e \<Rightarrow> Inl e | Inr d \<Rightarrow>
        Inr (row_html idx (html_escape t) (html_escape c) (html_escape l)
               (replace_newline '' '' (html_escape (py_prefix 420 (py_strip d))))
               (html_escape a)
               (replace_newline ''<br>''
                  (html_escape (case outreach j of None \<Rightarrow> [] | Some s \<Rightarrow> s)))))))))"

text \<open>Lines 130 to 152: \<^verbatim>\<open>enumerate(jobs, 1)\<close>.\<close>

fun render_rows :: "nat \<Rightarrow> job list \<Rightarrow> py_error + string list" where
  "render_rows idx [] = Inr []"
| "render_rows idx (j # js) =
     (case render_row idx j of
        Inl e \<Rightarrow> Inl e
      | Inr r \<Rightarrow> (case render_rows (Suc idx) js of
                    Inl e \<Rightarrow> Inl e
                  | Inr rs \<Rightarrow> Inr (r # rs)))"

fun join_newline :: "string list \<Rightarrow> string" where
  "join_newline [] = []"
| "join_newline [r] = r"
| "join_newline (r # rs) = r @ ''\<newline>'' @ join_newline rs"

definition no_rows_html :: string where
  \<open>no_rows_html =
     ''<tr><td colspan="2" style="padding:12px;">No fresh roles found today. Try widening COMPANIES or ROLE_QUERY.</td></tr>''\<close>

definition subject_line :: "nat \<Rightarrow> string \<Rightarrow> string" where
  "subject_line n now =
     ''[Daily SDE Digest] '' @ str_nat n @ '' roles '' @ [CHR 0xE2, CHR 0x80, CHR 0x94] @ '' '' @ now"

definition html_body :: "string \<Rightarrow> string \<Rightarrow> string" where
  \<open>html_body now rows_html =
     ''<div style="font-family:Inter,Arial,sans-serif; line-height:1.45;">\<newline>''
     @ ''      <h2 style="margin:0 0 8px;">Entry-level SDE / Full-Stack Roles</h2>\<newline>''
     @ ''      <div style="font-size:13px; color:#666; margin-bottom:12px;">Generated at '' @ now @ ''</div>\<newline>''
     @ ''      <table cellpadding="0" cellspacing="0" width="100%" style="border-collapse:collapse;">\<newline>''
     @ ''        <thead>\<newline>''
     @ ''          <tr>\<newline>''
     @ ''            <th style="text-align:left; padding:8px; border-bottom:2px solid #000;">#</th>\<newline>''
     @ ''            <th style="text-align:left; padding:8px; border-bottom:2px solid #000;">Role</th>\<newline>''
     @ ''          </tr>\<newline>''
     @ ''        </thead>\<newline>''
     @ ''        <tbody>\<newline>''
     @ ''          '' @ rows_html @ ''\<newline>''
     @ ''        </tbody>\<newline>''
     @ ''      </table>\<newline>''
     @ ''      <div style="margin-top:16px; font-size:12px; color:#666;">Tip: Tweak COMPANIES / ROLE_QUERY in env to refine.</div>\<newline>''
     @ ''    </div>''\<close>

text \<open>
  Lines 130 to 175: the subject and the body of the mail. The clock is read for the
  subject first and for the body second.
\<close>

definition digest :: "world \<Rightarrow> job list \<Rightarrow> py_error + string \<times> string" where
  "digest w jobs =
     (case render_rows 1 jobs of
        Inl e \<Rightarrow> Inl e
      | Inr rows \<Rightarrow>
          Inr (subject_line (length jobs) (now_reply w 0),
               html_body (now_reply w 1)
                 (if rows = [] then no_rows_html else join_newline rows)))"

section \<open>The whole run\<close>

text \<open>
  Lines 78 to 178 of \<^verbatim>\<open>main\<close>, after the configuration is read. The stages are named
  so that each can be spoken of alone: the accumulated records, the records after
  deduplication, truncation and enrichment, and the run with its trace.
\<close>

definition collect :: "config \<Rightarrow> world \<Rightarrow> job list \<times> event list" where
  "collect cfg w = aggregate w cfg 0 (companies cfg) []"

definition final_jobs :: "config \<Rightarrow> world \<Rightarrow> py_error + job list \<times> event list" where
  "final_jobs cfg w =
     (case dedup_truncate (max_results cfg) (fst (collect cfg w)) of
        Inl e \<Rightarrow> Inl e
      | Inr jobs \<Rightarrow> Inr (outreach_loop w (openai_api_key cfg) 0 jobs))"

definition pipeline :: "config \<Rightarrow> world \<Rightarrow> stop" where
  "pipeline cfg w =
     (case final_jobs cfg w of
        Inl e \<Rightarrow> (Uncaught e, snd (collect cfg w))
      | Inr (jobs, evs) \<Rightarrow>
          (case digest w jobs of
             Inl e \<Rightarrow> (Uncaught e, snd (collect cfg w) @ evs)
           | Inr (subject, body) \<Rightarrow>
               (case smtp_reply w (gmail_user cfg) (gmail_app_password cfg) (to_email cfg)
                       subject body of
                  Some e \<Rightarrow>
                    (Uncaught e,
                     snd (collect cfg w) @ evs
                       @ [SendMail (gmail_user cfg) (gmail_app_password cfg) (to_email cfg)
                            subject body])
                | None \<Rightarrow>
                    (Finished,
                     snd (collect cfg w) @ evs
                       @ [SendMail (gmail_user cfg) (gmail_app_password cfg) (to_email cfg)
                            subject body,
                          Stdout (''Sent digest to '' @ py_str (to_email cfg) @ '' with ''
                                    @ str_nat (length jobs) @ '' jobs.'')]))))"

text \<open>The digest of a run: the subject and the body rendered from its final records.\<close>

definition rendered :: "config \<Rightarrow> world \<Rightarrow> py_error + string \<times> string" where
  "rendered cfg w =
     (case final_jobs cfg w of
        Inl e \<Rightarrow> Inl e
      | Inr (jobs, evs) \<Rightarrow> digest w jobs)"

text \<open>The script, from the reading of the environment to the end of the run.\<close>

definition main :: "(string \<Rightarrow> int option) \<Rightarrow> environ \<Rightarrow> world \<Rightarrow> stop" where
  "main int_of_str environ w =
     (case load_config int_of_str environ of
        Inl s \<Rightarrow> s
      | Inr cfg \<Rightarrow> pipeline cfg w)"

section \<open>The specification's wording, for comparison\<close>

text \<open>
  The apply-link chain as the specification words it: the link field of the first
  entry of the apply options when there is one, otherwise that of the first related
  link, otherwise the share link, otherwise null.
\<close>

definition first_entry_link :: "(string \<times> json) list \<Rightarrow> string \<Rightarrow> json option" where
  "first_entry_link kvs k =
     (case map_of kvs k of
        Some (JList (JObj e # rest)) \<Rightarrow> map_of e ''link''
      | _ \<Rightarrow> None)"

definition spec_apply_link :: "(string \<times> json) list \<Rightarrow> json" where
  "spec_apply_link kvs =
     (case first_entry_link kvs ''apply_options'' of
        Some l \<Rightarrow> l
      | None \<Rightarrow>
          (case first_entry_link kvs ''related_links'' of
             Some l \<Rightarrow> l
           | None \<Rightarrow> dget kvs ''share_link'' JNull))"

text \<open>
  Deduplication as the specification words it. The identity of a record is the pair of
  its title and its company name, as the record holds them. The deduplicated list has
  the records at the positions where an identity occurs for the first time, in the order
  of these positions.
\<close>

definition identity :: "job \<Rightarrow> json \<times> json" where
  "identity j = (title j, company_name j)"

definition first_occurrences :: "job list \<Rightarrow> job list" where
  "first_occurrences jobs =
     map (\<lambda>i. jobs ! i)
       (filter (\<lambda>i. \<forall>i'<i. identity (jobs ! i') \<noteq> identity (jobs ! i)) [0..<length jobs])"

text \<open>
  The data model of the specification: a title is a string or null, and so is a
  company name.
\<close>

fun text_or_null :: "json \<Rightarrow> bool" where
  "text_or_null JNull = True"
| "text_or_null (JStr s) = True"
| "text_or_null v = False"

definition well_typed :: "job \<Rightarrow> bool" where
  "well_typed j = (text_or_null (title j) \<and> text_or_null (company_name j))"

section \<open>Sample inputs\<close>

text \<open>A record as the normalizer builds it from an item with a title, a company and an id.\<close>

definition sample_job :: "string \<Rightarrow> string \<Rightarrow> string \<Rightarrow> job" where
  "sample_job t c i =
     \<lparr> title = JStr t, company_name = JStr c, location = JNull, via = JNull,
       extensions = JObj [], description = JStr [], apply_link = JNull,
       job_id = JStr i, outreach = None \<rparr>"

text \<open>A configuration with a cap and a company list, and a world built from its search replies.\<close>

definition sample_config :: "int \<Rightarrow> string list \<Rightarrow> config" where
  "sample_config cap cs =
     \<lparr> serpapi_key = Some ''key'', openai_api_key = None,
       gmail_user = Some ''me@example.com'', gmail_app_password = Some ''secret'',
       to_email = Some ''you@example.com'', max_results = cap, companies = cs,
       role_query = Some ''engineer'', sites_hint = Some ''site:example.com'', days = 2 \<rparr>"

definition sample_world :: "(nat \<Rightarrow> py_error + json) \<Rightarrow> world" where
  "sample_world replies =
     \<lparr> search_reply = (\<lambda>k key q. replies k),
       outreach_reply = (\<lambda>k key j. Inr ''Hello''),
       now_reply = (\<lambda>k. ''2024-01-01 09:00 IST''),
       smtp_reply = (\<lambda>u p t s b. None) \<rparr>"

text \<open>A response with one well-formed item, and the record the normalizer makes of it.\<close>

definition one_result :: "string \<Rightarrow> json" where
  "one_result t = JObj [(''jobs_results'', JList [JObj [(''title'', JStr t)]])]"

definition plain_job :: "string \<Rightarrow> string \<Rightarrow> job" where
  "plain_job t c =
     \<lparr> title = JStr t, company_name = JStr c, location = JNull, via = JNull,
       extensions = JObj [], description = JStr [], apply_link = JNull,
       job_id = JNull, outreach = None \<rparr>"

text \<open>A response whose second item is a number, not an object.\<close>

definition broken_result :: "string \<Rightarrow> json" where
  "broken_result t = JObj [(''jobs_results'', JList [JObj [(''title'', JStr t)], JNum 5])]"

text \<open>An environment with the four required variables set.\<close>

definition sample_environ :: environ where
  "sample_environ =
     [''SERPAPI_KEY'' \<mapsto> ''key'', ''GMAIL_USER'' \<mapsto> ''me@example.com'',
      ''GMAIL_APP_PASSWORD'' \<mapsto> ''secret'', ''TO_EMAIL'' \<mapsto> ''you@example.com'']"

text \<open>
  An environment that sets the optional variables too, with a given text for \<^verbatim>\<open>DAYS\<close>.
\<close>

definition sample_environ_days :: "string \<Rightarrow> environ" where
  "sample_environ_days d =
     sample_environ(''MAX_RESULTS'' \<mapsto> ''20'', ''COMPANIES'' \<mapsto> ''Acme, Globex'',
       ''ROLE_QUERY'' \<mapsto> ''engineer'', ''SITES_HINT'' \<mapsto> ''site:example.com'',
       ''DAYS'' \<mapsto> d)"

text \<open>What \<^verbatim>\<open>int\<close> returns on the numerals the samples use; it is left undefined elsewhere.\<close>

definition sample_int :: "string \<Rightarrow> int option" where
  "sample_int = [''2'' \<mapsto> 2, ''7'' \<mapsto> 7, ''20'' \<mapsto> 20, ''30'' \<mapsto> 30]"

section \<open>Properties of the normalizer\<close>

lemma normalize_InrD:
  "normalize company item = Inr j \<Longrightarrow>
     \<exists>kvs v l. item = JObj kvs
       \<and> py_get (dget kvs ''detected_extensions'' (JObj [])) ''via'' = Inr v
       \<and> pick_apply_link kvs = Inr l
       \<and> j = \<lparr> title = dget kvs ''title'' JNull,
                 company_name = dget kvs ''company_name'' (JStr company),
                 location = dget kvs ''location'' JNull,
                 via = v,
                 extensions = dget kvs ''detected_extensions'' (JObj []),
                 description = dget kvs ''description'' (JStr ''''),
                 apply_link = l,
                 job_id = dget kvs ''job_id'' JNull,
                 outreach = None \<rparr>"
  by (cases item) (auto split: sum.splits)

lemma py_index0_get_InrD:
  "py_index0 x = Inr first \<Longrightarrow> py_get first k = Inr l \<Longrightarrow>
     \<exists>e rest. x = JList (JObj e # rest) \<and> first = JObj e \<and> l = dget e k JNull"
  by (cases x rule: py_index0.cases; cases first) (auto simp: py_get_def)

lemma pick_apply_link_options:
  assumes "truthy (dget kvs ''apply_options'' JNull)" and "pick_apply_link kvs = Inr l"
  shows "\<exists>e rest. dget kvs ''apply_options'' JNull = JList (JObj e # rest) \<and> l = dget e ''link'' JNull"
  using assms py_index0_get_InrD
  by (fastforce simp: pick_apply_link_def py_or_def split: sum.splits)

lemma pick_apply_link_fallback:
  assumes "\<not> truthy (dget kvs ''apply_options'' JNull)" and "pick_apply_link kvs = Inr l"
  shows "\<exists>e rest. py_or (dget kvs ''related_links'' JNull) (JList [JObj []]) = JList (JObj e # rest)
           \<and> l = py_or (dget e ''link'' JNull) (dget kvs ''share_link'' JNull)"
  using assms py_index0_get_InrD
  by (fastforce simp: pick_apply_link_def py_or_def[of "dget kvs ''apply_options'' JNull"] split: sum.splits)

lemma pick_apply_link_cong:
  assumes "dget kvs' ''apply_options'' JNull = dget kvs ''apply_options'' JNull"
    and "truthy (dget kvs ''apply_options'' JNull)"
  shows "pick_apply_link kvs' = pick_apply_link kvs"
  using assms by (simp add: pick_apply_link_def py_or_def)

lemmas normalize_eval =
  pick_apply_link_def py_or_def dget_def py_get_def

text \<open>
  C3, as the code has it. When the raw \<^verbatim>\<open>apply_options\<close> is a non-empty list, the apply
  link is the link field of its first entry, null when that entry has none, and nothing
  else is read. Otherwise it is the link of the first related-links entry when that link
  is present and non-empty, and the share link (null when absent) when it is not.
\<close>

theorem apply_link_chain:
  assumes "normalize company (JObj kvs) = Inr j"
  shows "(truthy (dget kvs ''apply_options'' JNull) \<longrightarrow>
            (\<exists>e rest. dget kvs ''apply_options'' JNull = JList (JObj e # rest)
               \<and> apply_link j = dget e ''link'' JNull))
       \<and> (\<not> truthy (dget kvs ''apply_options'' JNull) \<longrightarrow>
            (\<exists>e rest. py_or (dget kvs ''related_links'' JNull) (JList [JObj []]) = JList (JObj e # rest)
               \<and> apply_link j = (if truthy (dget e ''link'' JNull) then dget e ''link'' JNull
                                  else dget kvs ''share_link'' JNull)))"
proof -
  from normalize_InrD[OF assms] obtain l where l: "pick_apply_link kvs = Inr l" and j: "apply_link j = l"
    by auto
  show ?thesis
  proof (cases "truthy (dget kvs ''apply_options'' JNull)")
    case True
    with pick_apply_link_options[OF True l] j show ?thesis by simp
  next
    case False
    with pick_apply_link_fallback[OF False l] j show ?thesis by (auto simp: py_or_def)
  qed
qed

theorem apply_link_chain_witness:
  "apply_link \<lparr> title = JStr ''SWE'', company_name = JStr ''Acme'', location = JNull, via = JNull,
       extensions = JObj [], description = JStr '''', apply_link = JStr ''https://apply.example/1'',
       job_id = JNull, outreach = None \<rparr> = JStr ''https://apply.example/1''
   \<and> normalize ''Acme''
        (JObj [(''title'', JStr ''SWE''),
               (''apply_options'', JList [JObj [(''link'', JStr ''https://apply.example/1'')]]),
               (''related_links'', JList [JObj [(''link'', JStr ''https://acme.example/jobs/1'')]])])
      = Inr \<lparr> title = JStr ''SWE'', company_name = JStr ''Acme'', location = JNull, via = JNull,
           extensions = JObj [], description = JStr '''', apply_link = JStr ''https://apply.example/1'',
           job_id = JNull, outreach = None \<rparr>
   \<and> normalize ''Acme''
        (JObj [(''title'', JStr ''SWE''),
               (''related_links'', JList [JObj [(''link'', JStr ''https://acme.example/jobs/1'')]]),
               (''share_link'', JStr ''https://share.example/1'')])
      = Inr \<lparr> title = JStr ''SWE'', company_name = JStr ''Acme'', location = JNull, via = JNull,
           extensions = JObj [], description = JStr '''', apply_link = JStr ''https://acme.example/jobs/1'',
           job_id = JNull, outreach = None \<rparr>"
proof -
  let ?a = "[(''title'', JStr ''SWE''),
             (''apply_options'', JList [JObj [(''link'', JStr ''https://apply.example/1'')]]),
             (''related_links'', JList [JObj [(''link'', JStr ''https://acme.example/jobs/1'')]])]"
  let ?b = "[(''title'', JStr ''SWE''),
             (''related_links'', JList [JObj [(''link'', JStr ''https://acme.example/jobs/1'')]]),
             (''share_link'', JStr ''https://share.example/1'')]"
  have a: "normalize ''Acme'' (JObj ?a)
      = Inr \<lparr> title = JStr ''SWE'', company_name = JStr ''Acme'', location = JNull, via = JNull,
           extensions = JObj [], description = JStr '''', apply_link = JStr ''https://apply.example/1'',
           job_id = JNull, outreach = None \<rparr>"
    by (simp add: normalize_eval)
  have b: "normalize ''Acme'' (JObj ?b)
      = Inr \<lparr> title = JStr ''SWE'', company_name = JStr ''Acme'', location = JNull, via = JNull,
           extensions = JObj [], description = JStr '''', apply_link = JStr ''https://acme.example/jobs/1'',
           job_id = JNull, outreach = None \<rparr>"
    by (simp add: normalize_eval)
  from apply_link_chain[OF a] apply_link_chain[OF b] a b show ?thesis
    by simp
qed

theorem apply_link_chain_counterexample:
  "normalize ''Acme''
     (JObj [(''title'', JStr ''SWE''),
            (''apply_options'', JList [JObj [(''title'', JStr ''LinkedIn'')]]),
            (''related_links'', JList [JObj [(''link'', JStr ''https://acme.example/jobs/1'')]])])
   = Inr \<lparr> title = JStr ''SWE'', company_name = JStr ''Acme'', location = JNull, via = JNull,
           extensions = JObj [], description = JStr '''', apply_link = JNull, job_id = JNull,
           outreach = None \<rparr>
   \<and> spec_apply_link
       [(''title'', JStr ''SWE''),
        (''apply_options'', JList [JObj [(''title'', JStr ''LinkedIn'')]]),
        (''related_links'', JList [JObj [(''link'', JStr ''https://acme.example/jobs/1'')]])]
     = JStr ''https://acme.example/jobs/1''"
  by (simp add: normalize_eval spec_apply_link_def first_entry_link_def)

text \<open>
  C4. The record's company name is the raw \<^verbatim>\<open>company_name\<close> field when the item has
  one, and the company of the query when it has none.
\<close>

theorem normalize_company_name:
  assumes "normalize company item = Inr j"
  shows "\<exists>kvs. item = JObj kvs
          \<and> company_name j = (case map_of kvs ''company_name'' of
                                Some v \<Rightarrow> v
                              | None \<Rightarrow> JStr company)"
  using normalize_InrD[OF assms] by (auto simp: dget_def)

theorem normalize_company_name_witness:
  "normalize ''Acme'' (JObj [(''title'', JStr ''SWE'')])
     = Inr \<lparr> title = JStr ''SWE'', company_name = JStr ''Acme'', location = JNull, via = JNull,
           extensions = JObj [], description = JStr '''', apply_link = JNull, job_id = JNull,
           outreach = None \<rparr>
   \<and> normalize ''Acme'' (JObj [(''title'', JStr ''SWE''), (''company_name'', JStr ''Acme Labs'')])
     = Inr \<lparr> title = JStr ''SWE'', company_name = JStr ''Acme Labs'', location = JNull, via = JNull,
           extensions = JObj [], description = JStr '''', apply_link = JNull, job_id = JNull,
           outreach = None \<rparr>"
proof -
  have a: "normalize ''Acme'' (JObj [(''title'', JStr ''SWE'')])
     = Inr \<lparr> title = JStr ''SWE'', company_name = JStr ''Acme'', location = JNull, via = JNull,
           extensions = JObj [], description = JStr '''', apply_link = JNull, job_id = JNull,
           outreach = None \<rparr>"
    by (simp add: normalize_eval)
  have b: "normalize ''Acme'' (JObj [(''title'', JStr ''SWE''), (''company_name'', JStr ''Acme Labs'')])
     = Inr \<lparr> title = JStr ''SWE'', company_name = JStr ''Acme Labs'', location = JNull, via = JNull,
           extensions = JObj [], description = JStr '''', apply_link = JNull, job_id = JNull,
           outreach = None \<rparr>"
    by (simp add: normalize_eval)
  from normalize_company_name[OF a] normalize_company_name[OF b] a b show ?thesis
    by simp
qed

text \<open>
  C10. When the raw \<^verbatim>\<open>apply_options\<close> is a non-empty list whose first entry has no
  link field, the apply link is null, and the record is the same whatever the item holds
  under \<^verbatim>\<open>related_links\<close> and \<^verbatim>\<open>share_link\<close>: they are not read.
\<close>

theorem apply_options_without_link:
  assumes "map_of kvs ''apply_options'' = Some (JList (JObj e # rest))"
    and "map_of e ''link'' = None"
    and "normalize company (JObj kvs) = Inr j"
    and "\<forall>k. k \<noteq> ''related_links'' \<and> k \<noteq> ''share_link'' \<longrightarrow> map_of kvs' k = map_of kvs k"
  shows "apply_link j = JNull \<and> normalize company (JObj kvs') = Inr j"
proof -
  have ao: "dget kvs ''apply_options'' JNull = JList (JObj e # rest)"
    using assms(1) by (simp add: dget_def)
  then have t: "truthy (dget kvs ''apply_options'' JNull)" by simp
  from normalize_InrD[OF assms(3)] obtain l where l: "pick_apply_link kvs = Inr l" and j: "apply_link j = l"
    by auto
  from pick_apply_link_options[OF t l] ao assms(2) have "l = JNull"
    by (simp add: dget_def)
  moreover have same: "\<And>k d. k \<noteq> ''related_links'' \<Longrightarrow> k \<noteq> ''share_link'' \<Longrightarrow> dget kvs' k d = dget kvs k d"
    using assms(4) by (simp add: dget_def)
  have "pick_apply_link kvs' = pick_apply_link kvs"
    by (rule pick_apply_link_cong) (simp_all add: same t)
  then have "normalize company (JObj kvs') = normalize company (JObj kvs)"
    by (simp add: same cong: sum.case_cong)
  ultimately show ?thesis using assms(3) j by simp
qed

theorem apply_options_without_link_witness:
  "normalize ''Acme''
     (JObj [(''title'', JStr ''SWE''),
            (''apply_options'', JList [JObj [(''title'', JStr ''LinkedIn'')]]),
            (''related_links'', JNum 7),
            (''share_link'', JStr ''https://share.example/1'')])
   = Inr \<lparr> title = JStr ''SWE'', company_name = JStr ''Acme'', location = JNull, via = JNull,
           extensions = JObj [], description = JStr '''', apply_link = JNull, job_id = JNull,
           outreach = None \<rparr>"
proof -
  let ?kvs = "[(''title'', JStr ''SWE''),
               (''apply_options'', JList [JObj [(''title'', JStr ''LinkedIn'')]])]"
  let ?kvs' = "[(''title'', JStr ''SWE''),
            (''apply_options'', JList [JObj [(''title'', JStr ''LinkedIn'')]]),
            (''related_links'', JNum 7),
            (''share_link'', JStr ''https://share.example/1'')]"
  let ?j = "\<lparr> title = JStr ''SWE'', company_name = JStr ''Acme'', location = JNull, via = JNull,
           extensions = JObj [], description = JStr '''', apply_link = JNull, job_id = JNull,
           outreach = None \<rparr>"
  have a: "map_of ?kvs ''apply_options'' = Some (JList (JObj [(''title'', JStr ''LinkedIn'')] # []))"
    by simp
  have b: "map_of [(''title'', JStr ''LinkedIn'')] ''link'' = None"
    by simp
  have c: "normalize ''Acme'' (JObj ?kvs) = Inr ?j"
    by (simp add: normalize_eval)
  have d: "\<forall>k. k \<noteq> ''related_links'' \<and> k \<noteq> ''share_link'' \<longrightarrow> map_of ?kvs' k = map_of ?kvs k"
    by simp
  from apply_options_without_link[OF a b c d] show ?thesis by simp
qed

section \<open>Properties of the deduplicator\<close>

lemma first_occurrences_Nil: "first_occurrences [] = []"
  by (simp add: first_occurrences_def)

lemma first_occurrences_snoc:
  "first_occurrences (xs @ [x]) =
     first_occurrences xs @ (if identity x \<in> identity ` set xs then [] else [x])"
proof -
  have old: "filter (\<lambda>i. \<forall>i'<i. identity ((xs @ [x]) ! i') \<noteq> identity ((xs @ [x]) ! i)) [0..<length xs]
           = filter (\<lambda>i. \<forall>i'<i. identity (xs ! i') \<noteq> identity (xs ! i)) [0..<length xs]"
    by (rule filter_cong) (auto simp: nth_append)
  have last: "(\<forall>i'<length xs. identity ((xs @ [x]) ! i') \<noteq> identity ((xs @ [x]) ! length xs))
           \<longleftrightarrow> identity x \<notin> identity ` set xs"
  proof
    assume a: "\<forall>i'<length xs. identity ((xs @ [x]) ! i') \<noteq> identity ((xs @ [x]) ! length xs)"
    show "identity x \<notin> identity ` set xs"
    proof
      assume "identity x \<in> identity ` set xs"
      then obtain i where "i < length xs" "identity (xs ! i) = identity x"
        by (auto simp: in_set_conv_nth)
      with a show False by (auto simp: nth_append)
    qed
  next
    assume "identity x \<notin> identity ` set xs"
    then have "\<And>i'. i' < length xs \<Longrightarrow> identity (xs ! i') \<noteq> identity x"
      by (metis imageI nth_mem)
    then show "\<forall>i'<length xs. identity ((xs @ [x]) ! i') \<noteq> identity ((xs @ [x]) ! length xs)"
      by (simp add: nth_append)
  qed
  have m: "map (\<lambda>i. (xs @ [x]) ! i) (filter (\<lambda>i. \<forall>i'<i. identity (xs ! i') \<noteq> identity (xs ! i)) [0..<length xs])
         = map (\<lambda>i. xs ! i) (filter (\<lambda>i. \<forall>i'<i. identity (xs ! i') \<noteq> identity (xs ! i)) [0..<length xs])"
    by (rule map_cong) (auto simp: nth_append)
  show ?thesis
    unfolding first_occurrences_def
    using old last m by simp
qed

lemma set_first_occurrences_identity:
  "identity ` set (first_occurrences xs) = identity ` set xs"
  by (induction xs rule: rev_induct) (auto simp: first_occurrences_Nil first_occurrences_snoc)

lemma distinct_first_occurrences_identity:
  "distinct (map identity (first_occurrences xs))"
proof (induction xs rule: rev_induct)
  case Nil
  show ?case by (simp add: first_occurrences_Nil)
next
  case (snoc x xs)
  have "identity x \<notin> identity ` set xs \<Longrightarrow> identity x \<notin> identity ` set (first_occurrences xs)"
    by (simp add: set_first_occurrences_identity)
  with snoc show ?case
    by (auto simp: first_occurrences_snoc)
qed

lemma hash_key_text:
  "text_or_null a \<Longrightarrow> \<exists>h. hash_key a = Some h"
  by (cases a) simp_all

lemma hash_key_inject:
  "text_or_null a \<Longrightarrow> text_or_null b \<Longrightarrow> hash_key a = hash_key b \<Longrightarrow> a = b"
  by (cases a; cases b) simp_all

lemma job_key_well_typed:
  assumes "well_typed x" and "well_typed y"
  shows "job_key x \<noteq> None \<and> (job_key x = job_key y \<longleftrightarrow> identity x = identity y)"
proof -
  from assms have t: "text_or_null (title x)" "text_or_null (title y)"
    and c: "text_or_null (company_name x)" "text_or_null (company_name y)"
    by (simp_all add: well_typed_def)
  from hash_key_text[OF t(1)] obtain tx where tx: "hash_key (title x) = Some tx" by blast
  from hash_key_text[OF t(2)] obtain ty where ty: "hash_key (title y) = Some ty" by blast
  from hash_key_text[OF c(1)] obtain cx where cx: "hash_key (company_name x) = Some cx" by blast
  from hash_key_text[OF c(2)] obtain cy where cy: "hash_key (company_name y) = Some cy" by blast
  have kx: "job_key x = Some (tx, cx)" by (simp add: job_key_def tx cx)
  have ky: "job_key y = Some (ty, cy)" by (simp add: job_key_def ty cy)
  have teq: "tx = ty \<longleftrightarrow> title x = title y"
    using hash_key_inject[OF t(1) t(2)] tx ty by auto
  have ceq: "cx = cy \<longleftrightarrow> company_name x = company_name y"
    using hash_key_inject[OF c(1) c(2)] cx cy by auto
  show ?thesis
    by (simp add: kx ky teq ceq identity_def)
qed

lemma job_key_seen:
  assumes "well_typed x" and "\<forall>j\<in>set pre. well_typed j"
  shows "job_key x \<in> job_key ` set pre \<longleftrightarrow> identity x \<in> identity ` set pre"
proof
  assume "job_key x \<in> job_key ` set pre"
  then obtain y where y: "y \<in> set pre" "job_key x = job_key y" by auto
  with assms job_key_well_typed[of x y] have "identity x = identity y" by blast
  with y show "identity x \<in> identity ` set pre" by auto
next
  assume "identity x \<in> identity ` set pre"
  then obtain y where y: "y \<in> set pre" "identity x = identity y" by auto
  with assms job_key_well_typed[of x y] have "job_key x = job_key y" by blast
  with y show "job_key x \<in> job_key ` set pre" by auto
qed

lemma dedup_loop_first_occurrences:
  assumes "\<forall>j\<in>set (pre @ js). well_typed j"
    and "seen = {k. Some k \<in> job_key ` set pre}"
  shows "dedup_loop js seen (first_occurrences pre) = Inr (first_occurrences (pre @ js))"
  using assms
proof (induction js arbitrary: pre seen)
  case Nil
  show ?case by simp
next
  case (Cons j js)
  have wj: "well_typed j" and wpre: "\<forall>j\<in>set pre. well_typed j"
    using Cons.prems(1) by simp_all
  from job_key_well_typed[OF wj wj] obtain key where key: "job_key j = Some key" by auto
  have mem: "key \<in> seen \<longleftrightarrow> identity j \<in> identity ` set pre"
    using Cons.prems(2) key job_key_seen[OF wj wpre] by simp
  have seen': "(if key \<in> seen then seen else insert key seen) = {k. Some k \<in> job_key ` set (pre @ [j])}"
    using Cons.prems(2) key by auto
  have fo: "first_occurrences (pre @ [j]) = first_occurrences pre @ (if key \<in> seen then [] else [j])"
    using mem by (simp add: first_occurrences_snoc)
  have rest: "\<forall>j\<in>set ((pre @ [j]) @ js). well_typed j" using Cons.prems(1) by simp
  show ?case
  proof (cases "key \<in> seen")
    case True
    with seen' have s: "seen = {k. Some k \<in> job_key ` set (pre @ [j])}" by simp
    from True fo have "first_occurrences (pre @ [j]) = first_occurrences pre" by simp
    with Cons.IH[OF rest s] True key show ?thesis by simp
  next
    case False
    with seen' have s: "insert key seen = {k. Some k \<in> job_key ` set (pre @ [j])}" by simp
    from False fo have "first_occurrences (pre @ [j]) = first_occurrences pre @ [j]" by simp
    with Cons.IH[OF rest s] False key show ?thesis by simp
  qed
qed

lemma dedup_loop_Inl:
  "dedup_loop js seen deduped = Inl e \<Longrightarrow> e = TypeError \<and> (\<exists>j\<in>set js. job_key j = None)"
  by (induction js arbitrary: seen deduped) (auto split: option.splits if_splits)

lemmas dedup_eval = dedup_def dedup_truncate_def py_slice_to_def job_key_def sample_job_def

text \<open>
  C1. When every record's title and company name are strings or null, as the data model
  has them, the deduplication loop returns the first-occurring record of every pair
  (title, company name), in the order of first occurrence; the result has no two records
  with the same pair, and every pair of the input is there.
\<close>

theorem dedup_first_occurrences:
  assumes "\<forall>j\<in>set jobs. well_typed j"
  shows "dedup jobs = Inr (first_occurrences jobs)
       \<and> distinct (map identity (first_occurrences jobs))
       \<and> identity ` set (first_occurrences jobs) = identity ` set jobs"
proof -
  have "dedup_loop jobs {} (first_occurrences []) = Inr (first_occurrences ([] @ jobs))"
    by (rule dedup_loop_first_occurrences) (simp_all add: assms)
  then show ?thesis
    by (simp add: dedup_def first_occurrences_Nil set_first_occurrences_identity
        distinct_first_occurrences_identity)
qed

theorem dedup_first_occurrences_witness:
  "dedup [sample_job ''Backend Engineer'' ''Acme'' ''1'',
          sample_job ''Backend Engineer'' ''Globex'' ''2'',
          sample_job ''Backend Engineer'' ''Acme'' ''3'',
          sample_job ''Data Engineer'' ''Globex'' ''4'']
     = Inr [sample_job ''Backend Engineer'' ''Acme'' ''1'',
            sample_job ''Backend Engineer'' ''Globex'' ''2'',
            sample_job ''Data Engineer'' ''Globex'' ''4'']
   \<and> first_occurrences [sample_job ''Backend Engineer'' ''Acme'' ''1'',
          sample_job ''Backend Engineer'' ''Globex'' ''2'',
          sample_job ''Backend Engineer'' ''Acme'' ''3'',
          sample_job ''Data Engineer'' ''Globex'' ''4'']
     = [sample_job ''Backend Engineer'' ''Acme'' ''1'',
        sample_job ''Backend Engineer'' ''Globex'' ''2'',
        sample_job ''Data Engineer'' ''Globex'' ''4'']"
proof -
  let ?jobs = "[sample_job ''Backend Engineer'' ''Acme'' ''1'',
          sample_job ''Backend Engineer'' ''Globex'' ''2'',
          sample_job ''Backend Engineer'' ''Acme'' ''3'',
          sample_job ''Data Engineer'' ''Globex'' ''4'']"
  have h: "\<forall>j\<in>set ?jobs. well_typed j"
    by (simp add: well_typed_def sample_job_def)
  have d: "dedup ?jobs = Inr [sample_job ''Backend Engineer'' ''Acme'' ''1'',
            sample_job ''Backend Engineer'' ''Globex'' ''2'',
            sample_job ''Data Engineer'' ''Globex'' ''4'']"
    by (simp add: dedup_eval)
  from dedup_first_occurrences[OF h] d show ?thesis
    by simp
qed

text \<open>
  C2, as the code has it. For a cap that is not negative and an input list of any
  length, the list after deduplication and truncation has at most \<^verbatim>\<open>MAX_RESULTS\<close>
  records. The only other outcome is the \<^verbatim>\<open>TypeError\<close> of a key that is not hashable.
\<close>

theorem dedup_truncate_length:
  assumes "0 \<le> cap"
  shows "case dedup_truncate cap jobs of
           Inr out \<Rightarrow> int (length out) \<le> cap
         | Inl e \<Rightarrow> e = TypeError \<and> (\<exists>j\<in>set jobs. job_key j = None)"
proof (cases "dedup jobs")
  case (Inl e)
  then show ?thesis
    using dedup_loop_Inl[of jobs "{}" "[]" e] by (simp add: dedup_truncate_def dedup_def)
next
  case (Inr deduped)
  then show ?thesis using assms
    by (simp add: dedup_truncate_def py_slice_to_def)
qed

theorem dedup_truncate_length_witness:
  "dedup_truncate 2 [sample_job ''Backend Engineer'' ''Acme'' ''1'',
          sample_job ''Data Engineer'' ''Acme'' ''2'',
          sample_job ''Frontend Engineer'' ''Acme'' ''3'']
     = Inr [sample_job ''Backend Engineer'' ''Acme'' ''1'',
            sample_job ''Data Engineer'' ''Acme'' ''2'']
   \<and> int (length [sample_job ''Backend Engineer'' ''Acme'' ''1'',
            sample_job ''Data Engineer'' ''Acme'' ''2'']) \<le> 2"
proof -
  have h: "(0::int) \<le> 2" by simp
  have d: "dedup_truncate 2 [sample_job ''Backend Engineer'' ''Acme'' ''1'',
          sample_job ''Data Engineer'' ''Acme'' ''2'',
          sample_job ''Frontend Engineer'' ''Acme'' ''3'']
     = Inr [sample_job ''Backend Engineer'' ''Acme'' ''1'',
            sample_job ''Data Engineer'' ''Acme'' ''2'']"
    by (simp add: dedup_eval)
  from dedup_truncate_length[OF h, of "[sample_job ''Backend Engineer'' ''Acme'' ''1'',
          sample_job ''Data Engineer'' ''Acme'' ''2'',
          sample_job ''Frontend Engineer'' ''Acme'' ''3'']"] d show ?thesis
    by simp
qed

text \<open>
  With \<^verbatim>\<open>MAX_RESULTS=-1\<close> the slice \<^verbatim>\<open>deduped[:-1]\<close> drops the last record only: of
  three distinct records two are left, which is more than the cap.
\<close>

theorem dedup_truncate_length_counterexample:
  "dedup_truncate (- 1) [sample_job ''Backend Engineer'' ''Acme'' ''1'',
          sample_job ''Data Engineer'' ''Acme'' ''2'',
          sample_job ''Frontend Engineer'' ''Acme'' ''3'']
     = Inr [sample_job ''Backend Engineer'' ''Acme'' ''1'',
            sample_job ''Data Engineer'' ''Acme'' ''2'']
   \<and> \<not> int (length [sample_job ''Backend Engineer'' ''Acme'' ''1'',
            sample_job ''Data Engineer'' ''Acme'' ''2'']) \<le> - 1"
  by (simp add: dedup_eval)

section \<open>Properties of the aggregator\<close>

lemma company_step_searches:
  "filter is_search (snd (company_step w cfg k c jobs)) = [Search (build_query cfg c)]"
  by (simp add: company_step_def split: prod.splits option.splits)

lemma aggregate_searches:
  "\<exists>m\<le>length cs. filter is_search (snd (aggregate w cfg k cs jobs))
       = map (\<lambda>c. Search (build_query cfg c)) (take m cs)"
proof (induction cs arbitrary: k jobs)
  case Nil
  show ?case by simp
next
  case (Cons c cs)
  obtain jobs' evs where step: "company_step w cfg k c jobs = (jobs', evs)"
    by (cases "company_step w cfg k c jobs")
  have evs: "filter is_search evs = [Search (build_query cfg c)]"
    using company_step_searches[of w cfg k c jobs] step by simp
  show ?case
  proof (cases "max_results cfg \<le> int (length jobs')")
    case True
    with step evs have "filter is_search (snd (aggregate w cfg k (c # cs) jobs))
        = map (\<lambda>c. Search (build_query cfg c)) (take 1 (c # cs))"
      by simp
    then show ?thesis by (intro exI[of _ 1]) simp
  next
    case False
    from Cons.IH[of "Suc k" jobs'] obtain m where m: "m \<le> length cs"
      and eq: "filter is_search (snd (aggregate w cfg (Suc k) cs jobs'))
                = map (\<lambda>c. Search (build_query cfg c)) (take m cs)"
      by blast
    from False step evs eq
    have "filter is_search (snd (aggregate w cfg k (c # cs) jobs))
        = map (\<lambda>c. Search (build_query cfg c)) (take (Suc m) (c # cs))"
      by (auto split: prod.splits)
    with m show ?thesis by (intro exI[of _ "Suc m"]) simp
  qed
qed

lemma aggregate_stops:
  assumes "max_results cfg \<le> int (length (fst (aggregate w cfg k (pre @ [c]) jobs)))"
  shows "aggregate w cfg k (pre @ c # post) jobs = aggregate w cfg k (pre @ [c]) jobs"
  using assms
proof (induction pre arbitrary: k jobs)
  case Nil
  then show ?case by (auto split: prod.splits if_splits)
next
  case (Cons p pre)
  obtain jobs' evs where step: "company_step w cfg k p jobs = (jobs', evs)"
    by (cases "company_step w cfg k p jobs")
  show ?case
  proof (cases "max_results cfg \<le> int (length jobs')")
    case True
    with step show ?thesis by simp
  next
    case False
    with step Cons.prems
    have "max_results cfg \<le> int (length (fst (aggregate w cfg (Suc k) (pre @ [c]) jobs')))"
      by (auto split: prod.splits)
    from Cons.IH[OF this] False step show ?thesis by simp
  qed
qed

lemmas aggregate_eval =
  company_step_def try_company_def response_items_def sample_world_def sample_config_def
  one_result_def broken_result_def plain_job_def pick_apply_link_def py_or_def dget_def py_get_def

text \<open>
  C5. The search calls of the aggregator are the queries of a prefix of the company
  list, one per company and in list order, so there are at most as many as companies.
  Once the accumulator has reached \<^verbatim>\<open>MAX_RESULTS\<close> at the end of the iteration of a
  company, the run is over: nothing is done for the companies after it.
\<close>

theorem aggregate_search_calls:
  "(\<exists>m\<le>length cs. filter is_search (snd (aggregate w cfg k cs jobs))
       = map (\<lambda>c. Search (build_query cfg c)) (take m cs))
   \<and> (\<forall>pre c post. cs = pre @ c # post
         \<and> max_results cfg \<le> int (length (fst (aggregate w cfg k (pre @ [c]) jobs)))
        \<longrightarrow> aggregate w cfg k cs jobs = aggregate w cfg k (pre @ [c]) jobs)"
  using aggregate_searches[of cs w cfg k jobs] aggregate_stops[of cfg w k _ _ jobs]
  by blast

theorem aggregate_search_calls_witness:
  "aggregate (sample_world (\<lambda>k. Inr (one_result ''SWE''))) (sample_config 1 [''Acme'', ''Globex'', ''Initech''])
       0 [''Acme'', ''Globex'', ''Initech''] []
     = ([plain_job ''SWE'' ''Acme''],
        [Search (build_query (sample_config 1 [''Acme'', ''Globex'', ''Initech'']) ''Acme''), Sleep])"
proof -
  let ?w = "sample_world (\<lambda>k. Inr (one_result ''SWE''))"
  let ?cfg = "sample_config 1 [''Acme'', ''Globex'', ''Initech'']"
  have one: "aggregate ?w ?cfg 0 ([] @ [''Acme'']) []
     = ([plain_job ''SWE'' ''Acme''], [Search (build_query ?cfg ''Acme''), Sleep])"
    by (simp add: aggregate_eval)
  then have cap: "max_results ?cfg \<le> int (length (fst (aggregate ?w ?cfg 0 ([] @ [''Acme'']) [])))"
    by (simp add: sample_config_def)
  have split: "[''Acme'', ''Globex'', ''Initech''] = [] @ ''Acme'' # [''Globex'', ''Initech'']"
    by simp
  from aggregate_search_calls[of "[''Acme'', ''Globex'', ''Initech'']" ?w ?cfg 0 "[]"] split cap
  have "aggregate ?w ?cfg 0 [''Acme'', ''Globex'', ''Initech''] [] = aggregate ?w ?cfg 0 ([] @ [''Acme'']) []"
    by blast
  with one show ?thesis by simp
qed

lemma normalize_items_prefix:
  "normalize_items c items jobs = (jobs', r) \<Longrightarrow> \<exists>new. jobs' = jobs @ new"
proof (induction items arbitrary: jobs)
  case Nil
  then show ?case by simp
next
  case (Cons item items)
  show ?case
  proof (cases "normalize c item")
    case (Inl e)
    with Cons.prems show ?thesis by simp
  next
    case (Inr j)
    with Cons.prems have "normalize_items c items (jobs @ [j]) = (jobs', r)" by simp
    from Cons.IH[OF this] show ?thesis by auto
  qed
qed

lemma normalize_items_failed:
  "normalize_items c items jobs = (jobs', Some e) \<Longrightarrow>
     \<exists>ok bad rest new. items = ok @ bad # rest
       \<and> map (normalize c) ok = map Inr new \<and> normalize c bad = Inl e \<and> jobs' = jobs @ new"
proof (induction items arbitrary: jobs)
  case Nil
  then show ?case by simp
next
  case (Cons item items)
  show ?case
  proof (cases "normalize c item")
    case (Inl e')
    with Cons.prems have eq: "jobs' = jobs" "e' = e" by simp_all
    have "item # items = [] @ item # items \<and> map (normalize c) [] = map Inr []
        \<and> normalize c item = Inl e \<and> jobs' = jobs @ []"
      using Inl eq by simp
    then show ?thesis by blast
  next
    case (Inr j)
    with Cons.prems have "normalize_items c items (jobs @ [j]) = (jobs', Some e)" by simp
    from Cons.IH[OF this] obtain ok bad rest new where
      a: "items = ok @ bad # rest" and b: "map (normalize c) ok = map Inr new"
      and c: "normalize c bad = Inl e" and d: "jobs' = (jobs @ [j]) @ new"
      by blast
    have "item # items = (item # ok) @ bad # rest
        \<and> map (normalize c) (item # ok) = map Inr (j # new)
        \<and> normalize c bad = Inl e \<and> jobs' = jobs @ (j # new)"
      using a b c d Inr by simp
    then show ?thesis by blast
  qed
qed

lemma normalize_items_ok:
  "normalize_items c items jobs = (jobs', None) \<Longrightarrow>
     \<exists>new. map (normalize c) items = map Inr new \<and> jobs' = jobs @ new"
proof (induction items arbitrary: jobs)
  case Nil
  then show ?case by simp
next
  case (Cons item items)
  show ?case
  proof (cases "normalize c item")
    case (Inl e')
    with Cons.prems show ?thesis by simp
  next
    case (Inr j)
    with Cons.prems have "normalize_items c items (jobs @ [j]) = (jobs', None)" by simp
    from Cons.IH[OF this] obtain new where
      b: "map (normalize c) items = map Inr new" and d: "jobs' = (jobs @ [j]) @ new"
      by blast
    have "map (normalize c) (item # items) = map Inr (j # new) \<and> jobs' = jobs @ (j # new)"
      using b d Inr by simp
    then show ?thesis by blast
  qed
qed

lemma try_company_failed:
  assumes "try_company w cfg k c jobs = (jobs', Some e)"
  shows "(response_items w cfg k c = Inl e \<and> jobs' = jobs)
       \<or> (\<exists>ok bad rest new. response_items w cfg k c = Inr (ok @ bad # rest)
             \<and> map (normalize c) ok = map Inr new \<and> normalize c bad = Inl e
             \<and> jobs' = jobs @ new)"
proof (cases "response_items w cfg k c")
  case (Inl e')
  with assms show ?thesis by (simp add: try_company_def)
next
  case (Inr items)
  with assms have "normalize_items c items jobs = (jobs', Some e)"
    by (simp add: try_company_def)
  from normalize_items_failed[OF this] Inr show ?thesis by blast
qed

lemma response_items_search_failed:
  "search_reply w k (serpapi_key cfg) (build_query cfg c) = Inl e \<Longrightarrow> response_items w cfg k c = Inl e"
  by (simp add: response_items_def)

text \<open>
  C6, as the code has it. When the body of \<^verbatim>\<open>try\<close> fails for a company, either
  the items of its response could not be obtained (so, whenever the search call itself
  failed) and the accumulator is unchanged, or the normalization of one item failed, and
  the accumulator is the one built so far followed by the records of the items before
  that one. In both cases the warning is logged and the loop goes on with the next
  company, unless the cap is reached.
\<close>

theorem company_failure_contained:
  assumes "try_company w cfg k c jobs = (jobs', Some e)"
  shows "((response_items w cfg k c = Inl e \<and> jobs' = jobs)
          \<or> (\<exists>ok bad rest new. response_items w cfg k c = Inr (ok @ bad # rest)
                \<and> map (normalize c) ok = map Inr new \<and> normalize c bad = Inl e
                \<and> jobs' = jobs @ new))
       \<and> (\<forall>e'. search_reply w k (serpapi_key cfg) (build_query cfg c) = Inl e'
              \<longrightarrow> e' = e \<and> jobs' = jobs)
       \<and> aggregate w cfg k (c # cs) jobs =
           (if max_results cfg \<le> int (length jobs')
            then (jobs', [Search (build_query cfg c), Warn c e, Sleep])
            else (fst (aggregate w cfg (Suc k) cs jobs'),
                  [Search (build_query cfg c), Warn c e, Sleep]
                    @ snd (aggregate w cfg (Suc k) cs jobs')))"
proof -
  have a: "(response_items w cfg k c = Inl e \<and> jobs' = jobs)
          \<or> (\<exists>ok bad rest new. response_items w cfg k c = Inr (ok @ bad # rest)
                \<and> map (normalize c) ok = map Inr new \<and> normalize c bad = Inl e
                \<and> jobs' = jobs @ new)"
    by (rule try_company_failed[OF assms])
  have b: "\<forall>e'. search_reply w k (serpapi_key cfg) (build_query cfg c) = Inl e'
              \<longrightarrow> e' = e \<and> jobs' = jobs"
    using assms by (auto simp: try_company_def dest!: response_items_search_failed)
  have step: "company_step w cfg k c jobs = (jobs', [Search (build_query cfg c), Warn c e, Sleep])"
    using assms by (simp add: company_step_def)
  have c: "aggregate w cfg k (c # cs) jobs =
           (if max_results cfg \<le> int (length jobs')
            then (jobs', [Search (build_query cfg c), Warn c e, Sleep])
            else (fst (aggregate w cfg (Suc k) cs jobs'),
                  [Search (build_query cfg c), Warn c e, Sleep]
                    @ snd (aggregate w cfg (Suc k) cs jobs')))"
    using step by (simp split: prod.splits)
  from a b c show ?thesis by blast
qed

theorem company_failure_contained_witness:
  "aggregate (sample_world (\<lambda>k. if k = 0 then Inl (Raised ''timeout'') else Inr (one_result ''SWE'')))
     (sample_config 20 [''Acme'', ''Globex'']) 0 [''Acme'', ''Globex''] []
   = ([plain_job ''SWE'' ''Globex''],
      [Search (build_query (sample_config 20 [''Acme'', ''Globex'']) ''Acme''),
       Warn ''Acme'' (Raised ''timeout''), Sleep,
       Search (build_query (sample_config 20 [''Acme'', ''Globex'']) ''Globex''), Sleep])"
proof -
  let ?w = "sample_world (\<lambda>k. if k = 0 then Inl (Raised ''timeout'') else Inr (one_result ''SWE''))"
  let ?cfg = "sample_config 20 [''Acme'', ''Globex'']"
  have t: "try_company ?w ?cfg 0 ''Acme'' [] = ([], Some (Raised ''timeout''))"
    by (simp add: aggregate_eval)
  have r: "aggregate ?w ?cfg (Suc 0) [''Globex''] []
      = ([plain_job ''SWE'' ''Globex''], [Search (build_query ?cfg ''Globex''), Sleep])"
    by (simp add: aggregate_eval)
  have m: "\<not> max_results ?cfg \<le> int (length ([] :: job list))"
    by (simp add: sample_config_def)
  from company_failure_contained[OF t, of "[''Globex'']"] r m show ?thesis
    by simp
qed

text \<open>
  A response with a well-formed item followed by a malformed one: the normalization
  fails, and the company has contributed one record.
\<close>

theorem company_failure_counterexample:
  "try_company (sample_world (\<lambda>k. Inr (broken_result ''SWE''))) (sample_config 20 [''Acme'']) 0 ''Acme'' []
     = ([plain_job ''SWE'' ''Acme''], Some AttributeError)"
  by (simp add: aggregate_eval)

section \<open>Properties of the configuration\<close>

lemma env_required:
  "env environ n None True =
     (if blank (environ n) then Inl (Exit 1, [Stderr (''Missing required env var: '' @ n)])
      else Inr (environ n))"
  by (simp add: env_def getenv_def split: option.splits)

lemma env_optional: "env environ n d False = Inr (getenv environ n d)"
  by (simp add: env_def)

lemma bind_Inl: "bind (Inl s) f = Inl s"
  by (simp add: bind_def)

lemma bind_Inr: "bind (Inr x) f = f x"
  by (simp add: bind_def)

lemma load_config_missing:
  assumes "name \<in> set required_vars" and "blank (environ name)"
  shows "\<exists>n. find (\<lambda>n. blank (environ n)) required_vars = Some n
           \<and> load_config int_of_str environ
               = Inl (Exit 1, [Stderr (''Missing required env var: '' @ n)])"
proof -
  consider (a) "blank (environ ''SERPAPI_KEY'')"
    | (b) "\<not> blank (environ ''SERPAPI_KEY'')" "blank (environ ''GMAIL_USER'')"
    | (c) "\<not> blank (environ ''SERPAPI_KEY'')" "\<not> blank (environ ''GMAIL_USER'')"
          "blank (environ ''GMAIL_APP_PASSWORD'')"
    | (d) "\<not> blank (environ ''SERPAPI_KEY'')" "\<not> blank (environ ''GMAIL_USER'')"
          "\<not> blank (environ ''GMAIL_APP_PASSWORD'')" "blank (environ ''TO_EMAIL'')"
    using assms by (auto simp: required_vars_def)
  then show ?thesis
  proof cases
    case a
    then have "load_config int_of_str environ
        = Inl (Exit 1, [Stderr (''Missing required env var: '' @ ''SERPAPI_KEY'')])"
      by (simp add: load_config_def env_required env_optional bind_Inl bind_Inr)
    moreover from a have "find (\<lambda>n. blank (environ n)) required_vars = Some ''SERPAPI_KEY''"
      by (simp add: required_vars_def)
    ultimately show ?thesis by blast
  next
    case b
    then have "load_config int_of_str environ
        = Inl (Exit 1, [Stderr (''Missing required env var: '' @ ''GMAIL_USER'')])"
      by (simp add: load_config_def env_required env_optional bind_Inl bind_Inr)
    moreover from b have "find (\<lambda>n. blank (environ n)) required_vars = Some ''GMAIL_USER''"
      by (simp add: required_vars_def)
    ultimately show ?thesis by blast
  next
    case c
    then have "load_config int_of_str environ
        = Inl (Exit 1, [Stderr (''Missing required env var: '' @ ''GMAIL_APP_PASSWORD'')])"
      by (simp add: load_config_def env_required env_optional bind_Inl bind_Inr)
    moreover from c have "find (\<lambda>n. blank (environ n)) required_vars = Some ''GMAIL_APP_PASSWORD''"
      by (simp add: required_vars_def)
    ultimately show ?thesis by blast
  next
    case d
    then have "load_config int_of_str environ
        = Inl (Exit 1, [Stderr (''Missing required env var: '' @ ''TO_EMAIL'')])"
      by (simp add: load_config_def env_required env_optional bind_Inl bind_Inr)
    moreover from d have "find (\<lambda>n. blank (environ n)) required_vars = Some ''TO_EMAIL''"
      by (simp add: required_vars_def)
    ultimately show ?thesis by blast
  qed
qed

lemmas strip_eval = blank_def py_strip_def space_codes_def

text \<open>
  C7. When one of the required variables is unset or blank, the run ends with exit status
  1; all it has done is to print, on standard error, the line that names the first such
  variable in the order the script reads them. No search, no generation request and no
  mail is in the trace.
\<close>

theorem missing_required_exits:
  assumes "name \<in> set required_vars" and "blank (environ name)"
  shows "\<exists>n. find (\<lambda>n. blank (environ n)) required_vars = Some n
           \<and> main int_of_str environ w = (Exit 1, [Stderr (''Missing required env var: '' @ n)])
           \<and> filter is_network_call (snd (main int_of_str environ w)) = []"
proof -
  from load_config_missing[of name environ int_of_str, OF assms] obtain n where
    n: "find (\<lambda>n. blank (environ n)) required_vars = Some n"
    and l: "load_config int_of_str environ
              = Inl (Exit 1, [Stderr (''Missing required env var: '' @ n)])"
    by blast
  from l have m: "main int_of_str environ w
      = (Exit 1, [Stderr (''Missing required env var: '' @ n)])"
    by (simp add: main_def)
  then have "filter is_network_call (snd (main int_of_str environ w)) = []"
    by simp
  with n m show ?thesis by blast
qed

theorem missing_required_exits_witness:
  "main sample_int (sample_environ(''GMAIL_USER'' \<mapsto> ''  '', ''TO_EMAIL'' \<mapsto> [CHR 0xC2, CHR 0xA0]))
       (sample_world (\<lambda>k. Inr (one_result ''SWE'')))
     = (Exit 1, [Stderr ''Missing required env var: GMAIL_USER''])"
proof -
  let ?e = "sample_environ(''GMAIL_USER'' \<mapsto> ''  '', ''TO_EMAIL'' \<mapsto> [CHR 0xC2, CHR 0xA0])"
  let ?w = "sample_world (\<lambda>k. Inr (one_result ''SWE''))"
  have a: "''TO_EMAIL'' \<in> set required_vars" by (simp add: required_vars_def)
  have b: "blank (?e ''TO_EMAIL'')" by (simp add: strip_eval)
  have first: "find (\<lambda>n. blank (?e n)) required_vars = Some ''GMAIL_USER''"
    by (simp add: required_vars_def sample_environ_def strip_eval)
  from missing_required_exits[of "''TO_EMAIL''" ?e sample_int ?w, OF a b] first
  show ?thesis by simp
qed

section \<open>Properties of the outreach enricher\<close>







section \<open>The day window\<close>

lemma build_query_days: "build_query (cfg\<lparr>days := d\<rparr>) c = build_query cfg c"
  by (simp add: build_query_def)

lemma company_step_days: "company_step w (cfg\<lparr>days := d\<rparr>) k c jobs = company_step w cfg k c jobs"
  by (simp add: company_step_def try_company_def response_items_def build_query_days
      cong: prod.case_cong option.case_cong)

lemma aggregate_days: "aggregate w (cfg\<lparr>days := d\<rparr>) k cs jobs = aggregate w cfg k cs jobs"
  by (induction cs arbitrary: k jobs)
    (simp_all add: company_step_days cong: prod.case_cong if_cong)

lemma collect_days: "collect (cfg\<lparr>days := d\<rparr>) w = collect cfg w"
  by (simp add: collect_def aggregate_days)

lemma final_jobs_days: "final_jobs (cfg\<lparr>days := d\<rparr>) w = final_jobs cfg w"
  by (simp add: final_jobs_def collect_days cong: sum.case_cong)

lemma rendered_days: "rendered (cfg\<lparr>days := d\<rparr>) w = rendered cfg w"
  by (simp add: rendered_def final_jobs_days cong: sum.case_cong)

lemma pipeline_days: "pipeline (cfg\<lparr>days := d\<rparr>) w = pipeline cfg w"
  by (simp add: pipeline_def final_jobs_days collect_days
      cong: sum.case_cong prod.case_cong option.case_cong)

lemma bind_days:
  assumes "\<And>x. f2 x = (case f1 x of Inl s \<Rightarrow> Inl s | Inr c \<Rightarrow> Inr (c\<lparr>days := d\<rparr>))"
  shows "bind m f2 = (case bind m f1 of Inl s \<Rightarrow> Inl s | Inr c \<Rightarrow> Inr (c\<lparr>days := d\<rparr>))"
  using assms by (cases m) (simp_all add: bind_def)

lemma load_config_days:
  assumes same: "\<forall>n. n \<noteq> ''DAYS'' \<longrightarrow> environ1 n = environ2 n"
    and d1: "int_of_env int_of_str (getenv environ1 ''DAYS'' (Some ''2'')) = Inr d1"
    and d2: "int_of_env int_of_str (getenv environ2 ''DAYS'' (Some ''2'')) = Inr d2"
  shows "load_config int_of_str environ2 =
           (case load_config int_of_str environ1 of
              Inl s \<Rightarrow> Inl s
            | Inr cfg \<Rightarrow> Inr (cfg\<lparr>days := d2\<rparr>))"
proof -
  have e: "\<And>n d r. n \<noteq> ''DAYS'' \<Longrightarrow> env environ2 n d r = env environ1 n d r"
    using same by (simp add: env_def getenv_def)
  have days1: "bind (env environ1 ''DAYS'' (Some ''2'') False) (int_of_env int_of_str) = Inr d1"
    using d1 by (simp add: env_optional bind_Inr)
  have days2: "bind (env environ2 ''DAYS'' (Some ''2'') False) (int_of_env int_of_str) = Inr d2"
    using d2 by (simp add: env_optional bind_Inr)
  have e2: "env environ2 ''SERPAPI_KEY'' None True = env environ1 ''SERPAPI_KEY'' None True"
    "env environ2 ''OPENAI_API_KEY'' None False = env environ1 ''OPENAI_API_KEY'' None False"
    "env environ2 ''GMAIL_USER'' None True = env environ1 ''GMAIL_USER'' None True"
    "env environ2 ''GMAIL_APP_PASSWORD'' None True = env environ1 ''GMAIL_APP_PASSWORD'' None True"
    "env environ2 ''TO_EMAIL'' None True = env environ1 ''TO_EMAIL'' None True"
    "env environ2 ''MAX_RESULTS'' (Some ''20'') False = env environ1 ''MAX_RESULTS'' (Some ''20'') False"
    "env environ2 ''COMPANIES'' (Some default_companies) False
       = env environ1 ''COMPANIES'' (Some default_companies) False"
    "env environ2 ''ROLE_QUERY'' (Some default_role_query) False
       = env environ1 ''ROLE_QUERY'' (Some default_role_query) False"
    "env environ2 ''SITES_HINT'' (Some default_sites_hint) False
       = env environ1 ''SITES_HINT'' (Some default_sites_hint) False"
    by (simp_all add: e)
  show ?thesis
    unfolding load_config_def days1 days2 e2
    by (intro bind_days) (simp add: bind_Inr)
qed

text \<open>
  C9. Take two environments that agree on every variable but \<^verbatim>\<open>DAYS\<close>, whose values
  of \<^verbatim>\<open>DAYS\<close> (the default \<^verbatim>\<open>2\<close> when unset) are both read by \<^verbatim>\<open>int\<close>, and one
  world, so the same answer to the same question. Then the two runs end the same way with
  the same trace. When the first environment loads into a configuration, the second loads
  into the same configuration but for the day window, and replacing the day window changes
  neither the query of any company, nor the records accumulated, nor the deduplicated and
  truncated list, nor the final records, nor the rendered digest.
\<close>

theorem days_is_unused:
  assumes "\<forall>n. n \<noteq> ''DAYS'' \<longrightarrow> environ1 n = environ2 n"
    and "getenv environ1 ''DAYS'' (Some ''2'') = Some s1" and "int_of_str s1 = Some d1"
    and "getenv environ2 ''DAYS'' (Some ''2'') = Some s2" and "int_of_str s2 = Some d2"
  shows "main int_of_str environ1 w = main int_of_str environ2 w
       \<and> (\<forall>cfg. load_config int_of_str environ1 = Inr cfg \<longrightarrow>
            days cfg = d1
            \<and> load_config int_of_str environ2 = Inr (cfg\<lparr>days := d2\<rparr>)
            \<and> (\<forall>c. build_query (cfg\<lparr>days := d2\<rparr>) c = build_query cfg c)
            \<and> collect (cfg\<lparr>days := d2\<rparr>) w = collect cfg w
            \<and> dedup_truncate (max_results (cfg\<lparr>days := d2\<rparr>)) (fst (collect (cfg\<lparr>days := d2\<rparr>) w))
                = dedup_truncate (max_results cfg) (fst (collect cfg w))
            \<and> final_jobs (cfg\<lparr>days := d2\<rparr>) w = final_jobs cfg w
            \<and> rendered (cfg\<lparr>days := d2\<rparr>) w = rendered cfg w)"
proof -
  have i1: "int_of_env int_of_str (getenv environ1 ''DAYS'' (Some ''2'')) = Inr d1"
    using assms(2) assms(3) by (simp add: int_of_env_def)
  have i2: "int_of_env int_of_str (getenv environ2 ''DAYS'' (Some ''2'')) = Inr d2"
    using assms(4) assms(5) by (simp add: int_of_env_def)
  have l2: "load_config int_of_str environ2 =
           (case load_config int_of_str environ1 of
              Inl s \<Rightarrow> Inl s
            | Inr cfg \<Rightarrow> Inr (cfg\<lparr>days := d2\<rparr>))"
    by (rule load_config_days[OF assms(1) i1 i2])
  have l1: "load_config int_of_str environ1 =
           (case load_config int_of_str environ1 of
              Inl s \<Rightarrow> Inl s
            | Inr cfg \<Rightarrow> Inr (cfg\<lparr>days := d1\<rparr>))"
    by (rule load_config_days[of environ1 environ1 int_of_str d1 d1, OF _ i1 i1]) simp
  have m: "main int_of_str environ1 w = main int_of_str environ2 w"
  proof (cases "load_config int_of_str environ1")
    case (Inl s)
    with l2 show ?thesis by (simp add: main_def)
  next
    case (Inr cfg)
    with l2 show ?thesis by (simp add: main_def pipeline_days)
  qed
  have c: "\<forall>cfg. load_config int_of_str environ1 = Inr cfg \<longrightarrow>
            days cfg = d1
            \<and> load_config int_of_str environ2 = Inr (cfg\<lparr>days := d2\<rparr>)
            \<and> (\<forall>c. build_query (cfg\<lparr>days := d2\<rparr>) c = build_query cfg c)
            \<and> collect (cfg\<lparr>days := d2\<rparr>) w = collect cfg w
            \<and> dedup_truncate (max_results (cfg\<lparr>days := d2\<rparr>)) (fst (collect (cfg\<lparr>days := d2\<rparr>) w))
                = dedup_truncate (max_results cfg) (fst (collect cfg w))
            \<and> final_jobs (cfg\<lparr>days := d2\<rparr>) w = final_jobs cfg w
            \<and> rendered (cfg\<lparr>days := d2\<rparr>) w = rendered cfg w"
  proof (intro allI impI)
    fix cfg
    assume cfg: "load_config int_of_str environ1 = Inr cfg"
    from l1 cfg have "cfg = cfg\<lparr>days := d1\<rparr>" by simp
    then have "days cfg = days (cfg\<lparr>days := d1\<rparr>)" by simp
    then have dd: "days cfg = d1" by simp
    from l2 cfg have l: "load_config int_of_str environ2 = Inr (cfg\<lparr>days := d2\<rparr>)" by simp
    from dd l show "days cfg = d1
            \<and> load_config int_of_str environ2 = Inr (cfg\<lparr>days := d2\<rparr>)
            \<and> (\<forall>c. build_query (cfg\<lparr>days := d2\<rparr>) c = build_query cfg c)
            \<and> collect (cfg\<lparr>days := d2\<rparr>) w = collect cfg w
            \<and> dedup_truncate (max_results (cfg\<lparr>days := d2\<rparr>)) (fst (collect (cfg\<lparr>days := d2\<rparr>) w))
                = dedup_truncate (max_results cfg) (fst (collect cfg w))
            \<and> final_jobs (cfg\<lparr>days := d2\<rparr>) w = final_jobs cfg w
            \<and> rendered (cfg\<lparr>days := d2\<rparr>) w = rendered cfg w"
      by (simp add: build_query_days collect_days final_jobs_days rendered_days)
  qed
  from m c show ?thesis by blast
qed

lemmas config_eval =
  load_config_def env_def getenv_def bind_def int_of_env_def companies_of_env_def
  sample_environ_days_def sample_environ_def sample_int_def sample_config_def
  blank_def py_strip_def space_codes_def

theorem days_is_unused_witness:
  "load_config sample_int (sample_environ_days ''7'')
     = Inr ((sample_config 20 [''Acme'', ''Globex''])\<lparr>days := 7\<rparr>)
   \<and> load_config sample_int (sample_environ_days ''30'')
     = Inr ((sample_config 20 [''Acme'', ''Globex''])\<lparr>days := 30\<rparr>)
   \<and> main sample_int (sample_environ_days ''7'') (sample_world (\<lambda>k. Inr (one_result ''SWE'')))
     = main sample_int (sample_environ_days ''30'') (sample_world (\<lambda>k. Inr (one_result ''SWE'')))
   \<and> rendered ((sample_config 20 [''Acme'', ''Globex''])\<lparr>days := 30\<rparr>)
        (sample_world (\<lambda>k. Inr (one_result ''SWE'')))
     = rendered ((sample_config 20 [''Acme'', ''Globex''])\<lparr>days := 7\<rparr>)
        (sample_world (\<lambda>k. Inr (one_result ''SWE'')))"
proof -
  let ?w = "sample_world (\<lambda>k. Inr (one_result ''SWE''))"
  have same: "\<forall>n. n \<noteq> ''DAYS'' \<longrightarrow> sample_environ_days ''7'' n = sample_environ_days ''30'' n"
    by (simp add: sample_environ_days_def)
  have g7: "getenv (sample_environ_days ''7'') ''DAYS'' (Some ''2'') = Some ''7''"
    by (simp add: getenv_def sample_environ_days_def)
  have g30: "getenv (sample_environ_days ''30'') ''DAYS'' (Some ''2'') = Some ''30''"
    by (simp add: getenv_def sample_environ_days_def)
  have i7: "sample_int ''7'' = Some 7" and i30: "sample_int ''30'' = Some 30"
    by (simp_all add: sample_int_def)
  have l7: "load_config sample_int (sample_environ_days ''7'')
      = Inr ((sample_config 20 [''Acme'', ''Globex''])\<lparr>days := 7\<rparr>)"
    by (simp add: config_eval)
  from days_is_unused[of "sample_environ_days ''7''" "sample_environ_days ''30''" "''7''"
      sample_int 7 "''30''" 30 ?w, OF same g7 i7 g30 i30] l7
  show ?thesis by simp
qed

end
